theory Spec2Isabelle
  imports Complex_Main
begin

section \<open>Camera-spline editor: geometry and interaction state\<close>

text \<open>
  A shallow embedding of the camera-rig editor (\<^verbatim>\<open>app.jsx\<close>). JavaScript numbers are
  modelled as mathematical reals: rounding of IEEE doubles and of the \<^verbatim>\<open>Float32Array\<close>
  buffers is not represented, so every equation below is the exact-arithmetic reading of the
  code. Rig identifiers (the strings \<^verbatim>\<open>`${id}`\<close> for \<^verbatim>\<open>id = 0, 1, ...\<close>) are natural numbers.
\<close>

subsection \<open>Vectors (\<^verbatim>\<open>THREE.Vector3\<close>)\<close>

datatype Vector3 = Vector3 (vx: real) (vy: real) (vz: real)

text \<open>\<^verbatim>\<open>v.sub(w)\<close>, \<^verbatim>\<open>v.add(w)\<close>, \<^verbatim>\<open>v.length()\<close>, \<^verbatim>\<open>v.normalize()\<close> of the vector class.\<close>

definition sub :: "Vector3 \<Rightarrow> Vector3 \<Rightarrow> Vector3" where
  "sub v w = Vector3 (vx v - vx w) (vy v - vy w) (vz v - vz w)"

definition add :: "Vector3 \<Rightarrow> Vector3 \<Rightarrow> Vector3" where
  "add v w = Vector3 (vx v + vx w) (vy v + vy w) (vz v + vz w)"

definition multiplyScalar :: "Vector3 \<Rightarrow> real \<Rightarrow> Vector3" where
  "multiplyScalar v s = Vector3 (vx v * s) (vy v * s) (vz v * s)"

definition length_v :: "Vector3 \<Rightarrow> real" where
  "length_v v = sqrt (vx v * vx v + vy v * vy v + vz v * vz v)"

definition normalize :: "Vector3 \<Rightarrow> Vector3" where
  \<comment> \<open>\<^verbatim>\<open>divideScalar(this.length() || 1)\<close>\<close>
  "normalize v = multiplyScalar v (1 / (if length_v v = 0 then 1 else length_v v))"

definition lengthSq :: "Vector3 \<Rightarrow> real" where
  "lengthSq v = vx v * vx v + vy v * vy v + vz v * vz v"

definition crossVectors :: "Vector3 \<Rightarrow> Vector3 \<Rightarrow> Vector3" where
  "crossVectors a b =
     Vector3 (vy a * vz b - vz a * vy b) (vz a * vx b - vx a * vz b) (vx a * vy b - vy a * vx b)"

text \<open>The three floats a vertex contributes to a position buffer: \<^verbatim>\<open>push(p.x, p.y, p.z)\<close>.\<close>

definition coords :: "Vector3 \<Rightarrow> real list" where
  "coords p = [vx p, vy p, vz p]"

subsection \<open>Cubic Bezier curves (\<^verbatim>\<open>THREE.CubicBezierCurve3\<close>)\<close>

text \<open>
  The curve class belongs to the three.js library, which the editor imports. Its behaviour is
  written out here as the library implements it: \<^verbatim>\<open>getPoint(t)\<close> evaluates the four Bernstein
  terms per coordinate, and \<^verbatim>\<open>getPoints(divisions)\<close> returns the \<^verbatim>\<open>divisions + 1\<close> points at
  \<^verbatim>\<open>t = d / divisions\<close> for \<^verbatim>\<open>d = 0 .. divisions\<close>. A control point passed as \<^verbatim>\<open>undefined\<close>
  is replaced by the constructor's default \<^verbatim>\<open>new Vector3()\<close>, the origin.
\<close>

definition CubicBezierP0 :: "real \<Rightarrow> real \<Rightarrow> real" where
  "CubicBezierP0 t p = (let k = 1 - t in k * k * k * p)"

definition CubicBezierP1 :: "real \<Rightarrow> real \<Rightarrow> real" where
  "CubicBezierP1 t p = (let k = 1 - t in 3 * k * k * t * p)"

definition CubicBezierP2 :: "real \<Rightarrow> real \<Rightarrow> real" where
  "CubicBezierP2 t p = 3 * (1 - t) * t * t * p"

definition CubicBezierP3 :: "real \<Rightarrow> real \<Rightarrow> real" where
  "CubicBezierP3 t p = t * t * t * p"

definition CubicBezier :: "real \<Rightarrow> real \<Rightarrow> real \<Rightarrow> real \<Rightarrow> real \<Rightarrow> real" where
  "CubicBezier t p0 p1 p2 p3 =
     CubicBezierP0 t p0 + CubicBezierP1 t p1 + CubicBezierP2 t p2 + CubicBezierP3 t p3"

datatype CubicBezierCurve3 =
  CubicBezierCurve3 (v0: Vector3) (v1: Vector3) (v2: Vector3) (v3: Vector3)

definition getPoint :: "CubicBezierCurve3 \<Rightarrow> real \<Rightarrow> Vector3" where
  "getPoint c t =
     Vector3 (CubicBezier t (vx (v0 c)) (vx (v1 c)) (vx (v2 c)) (vx (v3 c)))
             (CubicBezier t (vy (v0 c)) (vy (v1 c)) (vy (v2 c)) (vy (v3 c)))
             (CubicBezier t (vz (v0 c)) (vz (v1 c)) (vz (v2 c)) (vz (v3 c)))"

definition getPoints :: "CubicBezierCurve3 \<Rightarrow> nat \<Rightarrow> Vector3 list" where
  "getPoints c divisions =
     map (\<lambda>d. getPoint c (real d / real divisions)) [0..<Suc divisions]"

subsection \<open>The shared store (\<^verbatim>\<open>state = proxy({...})\<close>)\<close>

text \<open>
  The three position tables are JavaScript arrays written by index. An entry is \<open>None\<close>
  where the array has a hole; reading past the end or reading a hole gives \<^verbatim>\<open>undefined\<close>.
  Writing at or past the end extends the array, as JavaScript does.
\<close>

type_synonym table = "Vector3 option list"

definition modes :: "string list" where
  "modes = [''translate'', ''rotate'']"

record state =
  focal :: "nat option"
  focalPos :: table
  leftHandlePos :: table
  rightHandlePos :: table
  mode :: nat

definition state_init :: state where
  "state_init = \<lparr> focal = None, focalPos = [], leftHandlePos = [], rightHandlePos = [], mode = 0 \<rparr>"

definition array_get :: "table \<Rightarrow> nat \<Rightarrow> Vector3 option" where
  \<comment> \<open>\<^verbatim>\<open>xs[i]\<close>, with \<open>None\<close> for \<^verbatim>\<open>undefined\<close>\<close>
  "array_get xs i = (if i < length xs then xs ! i else None)"

definition array_set :: "table \<Rightarrow> nat \<Rightarrow> Vector3 \<Rightarrow> table" where
  \<comment> \<open>\<^verbatim>\<open>xs[i] = v\<close>\<close>
  "array_set xs i v =
     (if i < length xs then xs[i := Some v]
      else xs @ replicate (i - length xs) None @ [Some v])"

definition array_in :: "nat \<Rightarrow> table \<Rightarrow> bool" where
  \<comment> \<open>\<^verbatim>\<open>`${i}` in xs\<close>: the index is an own property, so it is neither past the end nor a hole\<close>
  "array_in i xs = (array_get xs i \<noteq> None)"

definition slice0 :: "table \<Rightarrow> nat \<Rightarrow> table" where
  \<comment> \<open>\<^verbatim>\<open>xs.slice(0, count)\<close>\<close>
  "slice0 xs count = take count xs"

definition curve_arg :: "Vector3 option \<Rightarrow> Vector3" where
  \<comment> \<open>a constructor argument of the curve: \<^verbatim>\<open>v = new Vector3()\<close> when \<^verbatim>\<open>undefined\<close>\<close>
  "curve_arg a = (case a of None \<Rightarrow> Vector3 0 0 0 | Some v \<Rightarrow> v)"

subsection \<open>The spline path (\<^verbatim>\<open>Spline\<close>, \<^verbatim>\<open>computeCurve\<close>)\<close>

definition segment_curve :: "table \<Rightarrow> table \<Rightarrow> table \<Rightarrow> nat \<Rightarrow> CubicBezierCurve3" where
  \<comment> \<open>\<^verbatim>\<open>new THREE.CubicBezierCurve3(focalPos[i], rightPos[i], leftPos[i + 1], focalPos[i + 1])\<close>\<close>
  "segment_curve fp lp rp i =
     CubicBezierCurve3 (curve_arg (array_get fp i)) (curve_arg (array_get rp i))
                       (curve_arg (array_get lp (i + 1))) (curve_arg (array_get fp (i + 1)))"

definition segment_verts :: "CubicBezierCurve3 \<Rightarrow> nat \<Rightarrow> real list" where
  \<comment> \<open>the inner loop: \<^verbatim>\<open>for (i = 0; i < samples; i++) verts.push(points[i].x, points[i].y, points[i].z)\<close>\<close>
  "segment_verts curve samples =
     (let points = getPoints curve samples
      in concat (map (\<lambda>i. coords (points ! i)) [0..<samples]))"

definition computeCurve :: "state \<Rightarrow> nat \<Rightarrow> nat \<Rightarrow> real list" where
  "computeCurve s count samples =
     (let fp = slice0 (focalPos s) count;
          lp = slice0 (leftHandlePos s) count;
          rp = slice0 (rightHandlePos s) count
      in concat (map (\<lambda>i. segment_verts (segment_curve fp lp rp i) samples)
                     [0..<length fp - 1]))"

definition Spline :: "state \<Rightarrow> nat \<Rightarrow> nat \<Rightarrow> real list option" where
  \<comment> \<open>the position buffer installed each frame, \<open>None\<close> when no line is rendered
      (\<^verbatim>\<open>count > 1 && ...\<close>)\<close>
  "Spline s count samples = (if count > 1 then Some (computeCurve s count samples) else None)"

subsection \<open>Perspective projection (\<^verbatim>\<open>THREE.PerspectiveCamera\<close>, \<^verbatim>\<open>THREE.Matrix4\<close>)\<close>

text \<open>
  A matrix is the library's column-major array \<^verbatim>\<open>elements[0..15]\<close>; entry \<open>n\<^sub>r\<^sub>c\<close> of row \<open>r\<close>
  and column \<open>c\<close> is element \<open>4 (c - 1) + (r - 1)\<close>. The following definitions write out the
  library's \<^verbatim>\<open>makePerspective\<close> (WebGL coordinate system), \<^verbatim>\<open>updateProjectionMatrix\<close> (zoom 1,
  no view offset, no film offset), \<^verbatim>\<open>Matrix4.invert\<close> (cofactor expansion, the zero matrix
  when the determinant is zero) and \<^verbatim>\<open>Vector3.applyMatrix4\<close> (with the perspective divide).

  \<^verbatim>\<open>Math.tan\<close> is the real tangent except at its pole: a field of view of 180 degrees, the
  maximum of the control, asks for the tangent of \<^verbatim>\<open>Math.PI / 2\<close>, which in double arithmetic is
  the finite number 16331239353195370, because the double nearest to \<open>\<pi> / 2\<close> lies just
  below it. \<open>Math_tan\<close> takes that value there, so the frustum at 180 degrees is the huge
  finite pyramid the code builds.

  Lens values in range (\<open>0 < fov \<le> 180\<close>, \<open>aspect > 0\<close>, \<open>0 < near < far\<close>) never divide by
  zero. Outside that range the code can (\<^verbatim>\<open>near = far\<close>, a zero field of view): JavaScript then
  gives an infinity or a NaN where the division here gives 0, so for such lens values only
  the number of vertices is stated below, never their coordinates.
\<close>

datatype Matrix4 = Matrix4
  (e0: real) (e1: real) (e2: real) (e3: real)
  (e4: real) (e5: real) (e6: real) (e7: real)
  (e8: real) (e9: real) (e10: real) (e11: real)
  (e12: real) (e13: real) (e14: real) (e15: real)

definition makePerspective :: "real \<Rightarrow> real \<Rightarrow> real \<Rightarrow> real \<Rightarrow> real \<Rightarrow> real \<Rightarrow> Matrix4" where
  "makePerspective left right top_y bottom_y near far =
     (let x = 2 * near / (right - left);
          y = 2 * near / (top_y - bottom_y);
          a = (right + left) / (right - left);
          b = (top_y + bottom_y) / (top_y - bottom_y);
          c = - (far + near) / (far - near);
          d = (- 2 * far * near) / (far - near)
      in Matrix4 x 0 0 0
                 0 y 0 0
                 a b c (- 1)
                 0 0 d 0)"

definition DEG2RAD :: real where
  "DEG2RAD = pi / 180"

definition Math_tan :: "real \<Rightarrow> real" where
  "Math_tan x = (if x = pi / 2 then 16331239353195370 else tan x)"

definition projectionMatrix :: "real \<Rightarrow> real \<Rightarrow> real \<Rightarrow> real \<Rightarrow> Matrix4" where
  \<comment> \<open>\<^verbatim>\<open>updateProjectionMatrix()\<close> of \<^verbatim>\<open>new THREE.PerspectiveCamera(fov, aspect, near, far)\<close>\<close>
  "projectionMatrix fov aspect near far =
     (let top_y = near * Math_tan (DEG2RAD * 0.5 * fov) / 1;
          height = 2 * top_y;
          width = aspect * height;
          left = - 0.5 * width
      in makePerspective left (left + width) top_y (top_y - height) near far)"

definition invert :: "Matrix4 \<Rightarrow> Matrix4" where
  "invert m =
     (let n11 = e0 m; n21 = e1 m; n31 = e2 m; n41 = e3 m;
          n12 = e4 m; n22 = e5 m; n32 = e6 m; n42 = e7 m;
          n13 = e8 m; n23 = e9 m; n33 = e10 m; n43 = e11 m;
          n14 = e12 m; n24 = e13 m; n34 = e14 m; n44 = e15 m;
          t11 = n23 * n34 * n42 - n24 * n33 * n42 + n24 * n32 * n43
                - n22 * n34 * n43 - n23 * n32 * n44 + n22 * n33 * n44;
          t12 = n14 * n33 * n42 - n13 * n34 * n42 - n14 * n32 * n43
                + n12 * n34 * n43 + n13 * n32 * n44 - n12 * n33 * n44;
          t13 = n13 * n24 * n42 - n14 * n23 * n42 + n14 * n22 * n43
                - n12 * n24 * n43 - n13 * n22 * n44 + n12 * n23 * n44;
          t14 = n14 * n23 * n32 - n13 * n24 * n32 - n14 * n22 * n33
                + n12 * n24 * n33 + n13 * n22 * n34 - n12 * n23 * n34;
          det = n11 * t11 + n21 * t12 + n31 * t13 + n41 * t14
      in if det = 0 then Matrix4 0 0 0 0 0 0 0 0 0 0 0 0 0 0 0 0
         else let detInv = 1 / det in Matrix4
           (t11 * detInv)
           ((n24 * n33 * n41 - n23 * n34 * n41 - n24 * n31 * n43
             + n21 * n34 * n43 + n23 * n31 * n44 - n21 * n33 * n44) * detInv)
           ((n22 * n34 * n41 - n24 * n32 * n41 + n24 * n31 * n42
             - n21 * n34 * n42 - n22 * n31 * n44 + n21 * n32 * n44) * detInv)
           ((n23 * n32 * n41 - n22 * n33 * n41 - n23 * n31 * n42
             + n21 * n33 * n42 + n22 * n31 * n43 - n21 * n32 * n43) * detInv)
           (t12 * detInv)
           ((n13 * n34 * n41 - n14 * n33 * n41 + n14 * n31 * n43
             - n11 * n34 * n43 - n13 * n31 * n44 + n11 * n33 * n44) * detInv)
           ((n14 * n32 * n41 - n12 * n34 * n41 - n14 * n31 * n42
             + n11 * n34 * n42 + n12 * n31 * n44 - n11 * n32 * n44) * detInv)
           ((n12 * n33 * n41 - n13 * n32 * n41 + n13 * n31 * n42
             - n11 * n33 * n42 - n12 * n31 * n43 + n11 * n32 * n43) * detInv)
           (t13 * detInv)
           ((n14 * n23 * n41 - n13 * n24 * n41 - n14 * n21 * n43
             + n11 * n24 * n43 + n13 * n21 * n44 - n11 * n23 * n44) * detInv)
           ((n12 * n24 * n41 - n14 * n22 * n41 + n14 * n21 * n42
             - n11 * n24 * n42 - n12 * n21 * n44 + n11 * n22 * n44) * detInv)
           ((n13 * n22 * n41 - n12 * n23 * n41 - n13 * n21 * n42
             + n11 * n23 * n42 + n12 * n21 * n43 - n11 * n22 * n43) * detInv)
           (t14 * detInv)
           ((n13 * n24 * n31 - n14 * n23 * n31 + n14 * n21 * n33
             - n11 * n24 * n33 - n13 * n21 * n34 + n11 * n23 * n34) * detInv)
           ((n14 * n22 * n31 - n12 * n24 * n31 - n14 * n21 * n32
             + n11 * n24 * n32 + n12 * n21 * n34 - n11 * n22 * n34) * detInv)
           ((n12 * n23 * n31 - n13 * n22 * n31 + n13 * n21 * n32
             - n11 * n23 * n32 - n12 * n21 * n33 + n11 * n22 * n33) * detInv))"

definition projectionMatrixInverse :: "real \<Rightarrow> real \<Rightarrow> real \<Rightarrow> real \<Rightarrow> Matrix4" where
  \<comment> \<open>\<^verbatim>\<open>projectionMatrixInverse.copy(projectionMatrix).invert()\<close>\<close>
  "projectionMatrixInverse fov aspect near far = invert (projectionMatrix fov aspect near far)"

definition applyMatrix4 :: "Vector3 \<Rightarrow> Matrix4 \<Rightarrow> Vector3" where
  "applyMatrix4 v m =
     (let x = vx v; y = vy v; z = vz v;
          w = 1 / (e3 m * x + e7 m * y + e11 m * z + e15 m)
      in Vector3 ((e0 m * x + e4 m * y + e8 m * z + e12 m) * w)
                 ((e1 m * x + e5 m * y + e9 m * z + e13 m) * w)
                 ((e2 m * x + e6 m * y + e10 m * z + e14 m) * w))"

subsection \<open>The frustum wireframe (\<^verbatim>\<open>ComputeFrustumVertices\<close>, \<^verbatim>\<open>Frustum\<close>)\<close>

definition ComputeFrustumVertices :: "real \<Rightarrow> real \<Rightarrow> real \<Rightarrow> real \<Rightarrow> real list" where
  "ComputeFrustumVertices fov aspect near far =
     (let projInv = projectionMatrixInverse fov aspect near far;
          v0 = Vector3 0 0 0;
          v1 = applyMatrix4 (Vector3 (- 1) (- 1) 1) projInv;
          v2 = applyMatrix4 (Vector3 (- 1) 1 1) projInv;
          v3 = applyMatrix4 (Vector3 1 1 1) projInv;
          v4 = applyMatrix4 (Vector3 1 (- 1) 1) projInv
      in coords v0 @ coords v1 @ coords v2 @ coords v3 @ coords v4)"

definition frustum_indices :: "nat list" where
  "frustum_indices = [0, 1, 2, 0, 2, 3, 0, 3, 4, 0, 4, 1, 1, 4, 3, 1, 3, 2]"

definition vertex :: "real list \<Rightarrow> nat \<Rightarrow> Vector3" where
  \<comment> \<open>vertex \<open>k\<close> of a position buffer with \<^verbatim>\<open>itemSize = 3\<close>\<close>
  "vertex buf k = Vector3 (buf ! (3 * k)) (buf ! (3 * k + 1)) (buf ! (3 * k + 2))"

definition vertex_count :: "real list \<Rightarrow> nat" where
  \<comment> \<open>\<^verbatim>\<open>array.length / 3\<close>\<close>
  "vertex_count buf = length buf div 3"

subsection \<open>One camera rig (\<^verbatim>\<open>AuxCamera\<close>)\<close>

text \<open>
  A numeric control of the property panel is declared with its initial value and its
  \<^verbatim>\<open>min\<close>, \<^verbatim>\<open>max\<close> and \<^verbatim>\<open>step\<close>. The panel library (leva) stores a value written to such a
  control after clamping it into \<^verbatim>\<open>[min, max]\<close>; it raises nothing.
\<close>

datatype NumberInput = NumberInput (init_value: real) (min_value: real) (max_value: real) (step_value: real)

definition clamp :: "real \<Rightarrow> real \<Rightarrow> real \<Rightarrow> real" where
  "clamp v lo hi = (if v > hi then hi else if v < lo then lo else v)"

definition sanitize :: "NumberInput \<Rightarrow> real \<Rightarrow> real" where
  "sanitize c v = clamp v (min_value c) (max_value c)"

definition near_input :: NumberInput where
  "near_input = NumberInput 0.1 0.01 1 0.05"

definition far_input :: NumberInput where
  "far_input = NumberInput 3 1 10 0.1"

definition fov_input :: NumberInput where
  "fov_input = NumberInput 55 0 180 1"

definition aspect_input :: NumberInput where
  "aspect_input = NumberInput 1.6 0.1 10 0.1"

definition leftHandle_input :: NumberInput where
  "leftHandle_input = NumberInput 0.5 0.1 2 0.1"

definition rightHandle_input :: NumberInput where
  "rightHandle_input = NumberInput 0.5 0.1 2 0.1"

text \<open>
  The sample count of the path is such a control too (\<^verbatim>\<open>samples: {value: 200, min: 20,
  max: 1000, step: 10}\<close>), and \<^verbatim>\<open>computeCurve\<close> reads the stored value. \<open>written_samples v\<close>
  is the count the component runs with after the whole number \<open>v\<close> was written to the control.
\<close>

definition samples_input :: NumberInput where
  "samples_input = NumberInput 200 20 1000 10"

definition written_samples :: "nat \<Rightarrow> nat" where
  "written_samples v = nat \<lfloor>sanitize samples_input (real v)\<rfloor>"

text \<open>
  The rig: the values held by the property panel (\<open>pos\<close> to \<open>rightHandle\<close>), and the scene
  objects the component owns. The camera and the focal sphere are children of the scene
  root, so their \<^verbatim>\<open>position\<close> is a world position; the two handles are children of the
  camera, so their \<^verbatim>\<open>position\<close> is camera-local and \<open>matrixWorld\<close>, the camera's
  local-to-world map, gives their world position.
\<close>

record AuxCamera =
  pos :: Vector3
  rot :: Vector3
  foc :: Vector3
  near :: real
  far :: real
  fov :: real
  aspect :: real
  leftHandle :: real
  rightHandle :: real
  camera_position :: Vector3
  camera_rotation :: Vector3
  focal_position :: Vector3
  leftHandle_position :: Vector3
  rightHandle_position :: Vector3
  matrixWorld :: "Vector3 \<Rightarrow> Vector3"

definition z_depth :: "Vector3 \<Rightarrow> Vector3 \<Rightarrow> real" where
  \<comment> \<open>\<^verbatim>\<open>-new Vector3(pos).sub(new Vector3(foc)).length()\<close>\<close>
  "z_depth p f = - length_v (sub p f)"

definition AuxCamera_render :: "AuxCamera \<Rightarrow> AuxCamera" where
  \<comment> \<open>the component body: the element tree it returns sets the objects' positions\<close>
  "AuxCamera_render r =
     (let zd = z_depth (pos r) (foc r)
      in r\<lparr> camera_position := pos r,
            camera_rotation := rot r,
            leftHandle_position := Vector3 (- leftHandle r) 0 zd,
            rightHandle_position := Vector3 (rightHandle r) 0 zd,
            focal_position := foc r \<rparr>)"

definition AuxCamera_init :: "Vector3 \<Rightarrow> Vector3 \<Rightarrow> Vector3 \<Rightarrow> (Vector3 \<Rightarrow> Vector3) \<Rightarrow> AuxCamera" where
  \<comment> \<open>the first render of \<^verbatim>\<open>AuxCamera({id, initPos, initRot, initFocal})\<close>\<close>
  "AuxCamera_init initPos initRot initFocal world =
     AuxCamera_render
       \<lparr> pos = initPos, rot = initRot, foc = initFocal,
         near = init_value near_input, far = init_value far_input,
         fov = init_value fov_input, aspect = init_value aspect_input,
         leftHandle = init_value leftHandle_input, rightHandle = init_value rightHandle_input,
         camera_position = initPos, camera_rotation = initRot, focal_position = initFocal,
         leftHandle_position = Vector3 0 0 0, rightHandle_position = Vector3 0 0 0,
         matrixWorld = world \<rparr>"

text \<open>Writes from the property panel to the lens fields: \<^verbatim>\<open>set({fov: v})\<close> and the like.\<close>

definition set_near :: "real \<Rightarrow> AuxCamera \<Rightarrow> AuxCamera" where
  "set_near v r = r\<lparr> near := sanitize near_input v \<rparr>"

definition set_far :: "real \<Rightarrow> AuxCamera \<Rightarrow> AuxCamera" where
  "set_far v r = r\<lparr> far := sanitize far_input v \<rparr>"

definition set_fov :: "real \<Rightarrow> AuxCamera \<Rightarrow> AuxCamera" where
  "set_fov v r = r\<lparr> fov := sanitize fov_input v \<rparr>"

definition set_aspect :: "real \<Rightarrow> AuxCamera \<Rightarrow> AuxCamera" where
  "set_aspect v r = r\<lparr> aspect := sanitize aspect_input v \<rparr>"

definition Frustum :: "AuxCamera \<Rightarrow> real list \<times> nat list" where
  \<comment> \<open>the position and index buffers of \<^verbatim>\<open><Frustum fov aspect near far />\<close>\<close>
  "Frustum r = (ComputeFrustumVertices (fov r) (aspect r) (near r) (far r), frustum_indices)"

definition useFrame_AuxCamera :: "nat \<Rightarrow> AuxCamera \<Rightarrow> state \<Rightarrow> AuxCamera \<times> state" where
  \<comment> \<open>the per-frame callback of rig \<open>id\<close>: copy the world positions into the panel and
      publish the focal and handle world positions in the shared tables\<close>
  "useFrame_AuxCamera rid r s =
     (r\<lparr> pos := camera_position r, rot := camera_rotation r, foc := focal_position r \<rparr>,
      s\<lparr> focalPos := array_set (focalPos s) rid (focal_position r),
         leftHandlePos := array_set (leftHandlePos s) rid (matrixWorld r (leftHandle_position r)),
         rightHandlePos := array_set (rightHandlePos s) rid (matrixWorld r (rightHandle_position r)) \<rparr>)"

definition perFrameUpdate :: "nat \<Rightarrow> AuxCamera \<Rightarrow> state \<Rightarrow> AuxCamera \<times> state" where
  \<comment> \<open>one frame of a rig: the callback, then the re-render its panel writes cause\<close>
  "perFrameUpdate rid r s =
     (let (r', s') = useFrame_AuxCamera rid r s in (AuxCamera_render r', s'))"

text \<open>
  \<^verbatim>\<open>Controls.updateFocal\<close> runs on every gizmo change of the selected rig. It re-aims the
  camera with the library's \<^verbatim>\<open>lookAt\<close>, which is a parameter here: from the camera position
  and the target it gives the camera's new rotation and local-to-world map. Of the handles
  only the depth is written (\<^verbatim>\<open>leftHandle.position.z = z_depth\<close>).
\<close>

definition updateFocal ::
  "(Vector3 \<Rightarrow> Vector3 \<Rightarrow> Vector3 \<times> (Vector3 \<Rightarrow> Vector3)) \<Rightarrow> AuxCamera \<Rightarrow> AuxCamera" where
  "updateFocal lookAt r =
     (let focalPos' = focal_position r;
          aimed = lookAt (camera_position r) focalPos';
          camPos = camera_position r;
          zd = - length_v (sub camPos focalPos')
      in r\<lparr> camera_rotation := fst aimed,
            matrixWorld := snd aimed,
            leftHandle_position :=
               Vector3 (vx (leftHandle_position r)) (vy (leftHandle_position r)) zd,
            rightHandle_position :=
               Vector3 (vx (rightHandle_position r)) (vy (rightHandle_position r)) zd \<rparr>)"

subsection \<open>Aiming and dragging a camera (\<^verbatim>\<open>lookAt\<close>, \<^verbatim>\<open>TransformControls\<close>)\<close>

text \<open>
  The library's \<^verbatim>\<open>Matrix4.lookAt(eye, target, up)\<close> builds a rotation whose columns are the
  axes \<open>x, y, z\<close> of the aimed frame, with \<open>z\<close> pointing from the target to the eye;
  \<^verbatim>\<open>Euler.setFromRotationMatrix\<close> (order XYZ) reads the Euler angles off such a rotation. A
  camera is a child of the unrotated, unscaled scene root, so the local-to-world map of a
  camera at \<open>eye\<close> with these axes sends \<open>v\<close> to \<open>eye + v\<^sub>x x + v\<^sub>y y + v\<^sub>z z\<close>.
  \<open>lookAt_camera\<close> is \<^verbatim>\<open>cam.lookAt(target)\<close> for such a camera with the default up vector.
\<close>

definition atan2 :: "real \<Rightarrow> real \<Rightarrow> real" where
  \<comment> \<open>\<^verbatim>\<open>Math.atan2(y, x)\<close>; the reals have one zero, so where JavaScript tells \<^verbatim>\<open>-0\<close> from \<^verbatim>\<open>0\<close>
      this is its result for \<^verbatim>\<open>0\<close>\<close>
  "atan2 y x =
     (if 0 < x then arctan (y / x)
      else if x < 0 then (if 0 \<le> y then arctan (y / x) + pi else arctan (y / x) - pi)
      else if 0 < y then pi / 2 else if y < 0 then - pi / 2 else 0)"

definition Matrix4_lookAt :: "Vector3 \<Rightarrow> Vector3 \<Rightarrow> Vector3 \<Rightarrow> Vector3 \<times> Vector3 \<times> Vector3" where
  "Matrix4_lookAt eye target up =
     (let z0 = sub eye target;
          z1 = normalize (if lengthSq z0 = 0 then Vector3 (vx z0) (vy z0) 1 else z0);
          x0 = crossVectors up z1;
          z2 = (if lengthSq x0 = 0
                then normalize (if \<bar>vz up\<bar> = 1 then Vector3 (vx z1 + 0.0001) (vy z1) (vz z1)
                                else Vector3 (vx z1) (vy z1) (vz z1 + 0.0001))
                else z1);
          x1 = normalize (if lengthSq x0 = 0 then crossVectors up z2 else x0);
          y1 = crossVectors z2 x1
      in (x1, y1, z2))"

definition setFromRotationMatrix :: "Vector3 \<times> Vector3 \<times> Vector3 \<Rightarrow> Vector3" where
  "setFromRotationMatrix axes =
     (let (x, y, z) = axes;
          m11 = vx x; m12 = vx y; m13 = vx z;
          m22 = vy y; m23 = vy z;
          m32 = vz y; m33 = vz z;
          ey = arcsin (clamp m13 (- 1) 1)
      in if \<bar>m13\<bar> < 0.9999999
         then Vector3 (atan2 (- m23) m33) ey (atan2 (- m12) m11)
         else Vector3 (atan2 m32 m22) ey 0)"

definition localToWorld :: "Vector3 \<Rightarrow> Vector3 \<times> Vector3 \<times> Vector3 \<Rightarrow> Vector3 \<Rightarrow> Vector3" where
  "localToWorld eye axes v =
     (let (x, y, z) = axes
      in add eye (add (multiplyScalar x (vx v))
                      (add (multiplyScalar y (vy v)) (multiplyScalar z (vz v)))))"

definition lookAt_camera :: "Vector3 \<Rightarrow> Vector3 \<Rightarrow> Vector3 \<times> (Vector3 \<Rightarrow> Vector3)" where
  "lookAt_camera eye target =
     (let axes = Matrix4_lookAt eye target (Vector3 0 1 0)
      in (setFromRotationMatrix axes, localToWorld eye axes))"

text \<open>
  The two transform controls of the selected rig: a drag moves the object it is attached
  to, the camera or the focal sphere, and its \<^verbatim>\<open>onObjectChange\<close> runs \<^verbatim>\<open>updateFocal\<close>.
\<close>

definition drag_camera :: "Vector3 \<Rightarrow> AuxCamera \<Rightarrow> AuxCamera" where
  "drag_camera p r = updateFocal lookAt_camera (r\<lparr> camera_position := p \<rparr>)"

definition drag_focal :: "Vector3 \<Rightarrow> AuxCamera \<Rightarrow> AuxCamera" where
  "drag_focal p r = updateFocal lookAt_camera (r\<lparr> focal_position := p \<rparr>)"

subsection \<open>Selection and gizmo mode (\<^verbatim>\<open>AuxCamera\<close> handlers, \<^verbatim>\<open>CameraBundle\<close>)\<close>

text \<open>
  The handlers of a rig's focal sphere write the store and read the snapshot \<^verbatim>\<open>snap\<close> taken
  at the last render. The application state is therefore the store, the snapshot the handlers
  currently close over, and the \<^verbatim>\<open>count\<close> of the last committed render of \<^verbatim>\<open>CameraBundle\<close>
  (\<open>None\<close> before it is mounted).
\<close>

record app =
  store :: state
  snap :: state
  rendered_count :: "nat option"

definition app_init :: app where
  "app_init = \<lparr> store = state_init, snap = state_init, rendered_count = None \<rparr>"

definition onClick :: "nat \<Rightarrow> app \<Rightarrow> app" where
  \<comment> \<open>\<^verbatim>\<open>state.focal = id\<close>\<close>
  "onClick rid a = a\<lparr> store := (store a)\<lparr> focal := Some rid \<rparr> \<rparr>"

definition onPointerMissed :: "app \<Rightarrow> app" where
  \<comment> \<open>a click that hit no handler of this sphere: \<^verbatim>\<open>state.focal = null\<close>\<close>
  "onPointerMissed a = a\<lparr> store := (store a)\<lparr> focal := None \<rparr> \<rparr>"

definition onContextMenu :: "nat \<Rightarrow> app \<Rightarrow> app" where
  \<comment> \<open>\<^verbatim>\<open>snap.focal === id && (state.mode = (snap.mode + 1) % modes.length)\<close>\<close>
  "onContextMenu rid a =
     (if focal (snap a) = Some rid
      then a\<lparr> store := (store a)\<lparr> mode := (mode (snap a) + 1) mod length modes \<rparr> \<rparr>
      else a)"

definition render :: "app \<Rightarrow> app" where
  \<comment> \<open>a re-render: the components take a fresh snapshot of the store\<close>
  "render a = a\<lparr> snap := store a \<rparr>"

definition CameraBundle_initPos :: "nat \<Rightarrow> real \<Rightarrow> nat \<Rightarrow> Vector3" where
  "CameraBundle_initPos count initHeight rid =
     (let interval = 2.0;
          offset = (- interval * (real count - 1)) / 2
      in Vector3 (offset + interval * real rid) initHeight 2.5)"

definition initFocal_of :: "Vector3 \<Rightarrow> Vector3 \<Rightarrow> Vector3" where
  \<comment> \<open>\<^verbatim>\<open>diff = focal.sub(initPos).normalize(); initFocal = initPos.add(diff)\<close>: the focal sphere
      starts one unit from the camera towards the point looked at\<close>
  "initFocal_of initPos target = add initPos (normalize (sub target initPos))"

definition publish_init :: "nat \<Rightarrow> Vector3 \<Rightarrow> Vector3 \<Rightarrow> state \<Rightarrow> state" where
  \<comment> \<open>\<^verbatim>\<open>if (!(`${id}` in state.leftHandlePos)) { ... }\<close>: a new rig's first table entries,
      with the camera position standing in for both handles\<close>
  "publish_init rid initPos initFocal s =
     (if \<not> array_in rid (leftHandlePos s)
      then s\<lparr> focalPos := array_set (focalPos s) rid initFocal,
              leftHandlePos := array_set (leftHandlePos s) rid initPos,
              rightHandlePos := array_set (rightHandlePos s) rid initPos \<rparr>
      else s)"

definition CameraBundle_body :: "nat \<Rightarrow> real \<Rightarrow> state \<Rightarrow> state" where
  \<comment> \<open>the \<^verbatim>\<open>map\<close> over \<^verbatim>\<open>[...Array(count).keys()]\<close>\<close>
  "CameraBundle_body count initHeight s =
     fold (\<lambda>rid s'. let initPos = CameraBundle_initPos count initHeight rid
                    in publish_init rid initPos (initFocal_of initPos (Vector3 0 initHeight 0)) s')
          [0..<count] s"

definition CameraBundle :: "nat \<Rightarrow> real \<Rightarrow> app \<Rightarrow> app" where
  \<comment> \<open>a render of \<^verbatim>\<open><CameraBundle count initHeight />\<close> and its effect
      \<^verbatim>\<open>useEffect(() => { state.focal = null }, [count])\<close>, which runs on mount and whenever
      \<^verbatim>\<open>count\<close> differs from that of the previous render\<close>
  "CameraBundle count initHeight a =
     (let s1 = CameraBundle_body count initHeight (store a);
          s2 = (if rendered_count a \<noteq> Some count then s1\<lparr> focal := None \<rparr> else s1)
      in a\<lparr> store := s2, rendered_count := Some count \<rparr>)"

definition CameraBundle_rig :: "nat \<Rightarrow> real \<Rightarrow> nat \<Rightarrow> AuxCamera" where
  \<comment> \<open>the component \<^verbatim>\<open><AuxCamera id initPos initRot initFocal />\<close> that \<^verbatim>\<open>CameraBundle\<close> mounts
      for rig \<open>rid\<close>, its camera oriented as \<^verbatim>\<open>initRot\<close> says\<close>
  "CameraBundle_rig count initHeight rid =
     (let focal' = Vector3 0 initHeight 0;
          up = Vector3 0 1 0;
          initPos = CameraBundle_initPos count initHeight rid;
          axes = Matrix4_lookAt initPos focal' up;
          initRot = setFromRotationMatrix axes;
          initFocal = initFocal_of initPos focal'
      in AuxCamera_init initPos initRot initFocal (localToWorld initPos axes))"

text \<open>
  The host's dispatch of a primary click that hits the focal sphere of rig \<open>id\<close>: the spheres
  that were missed get their \<^verbatim>\<open>onPointerMissed\<close> first, then the hit sphere gets \<^verbatim>\<open>onClick\<close>;
  the store change is followed by a re-render. A click on empty space only misses, and a
  secondary click on the sphere of rig \<open>id\<close> reaches \<^verbatim>\<open>onContextMenu\<close>.
\<close>

definition select :: "nat \<Rightarrow> app \<Rightarrow> app" where
  "select rid a = render (onClick rid (onPointerMissed a))"

definition deselect :: "app \<Rightarrow> app" where
  "deselect a = render (onPointerMissed a)"

definition toggle :: "nat \<Rightarrow> app \<Rightarrow> app" where
  "toggle rid a = render (onContextMenu rid a)"

definition setCount :: "nat \<Rightarrow> real \<Rightarrow> app \<Rightarrow> app" where
  "setCount count initHeight a = render (CameraBundle count initHeight a)"

definition frame :: "nat \<Rightarrow> AuxCamera \<Rightarrow> app \<Rightarrow> app" where
  \<comment> \<open>one frame of the component of rig \<open>rid\<close>, as far as the store is concerned\<close>
  "frame rid r a = a\<lparr> store := snd (perFrameUpdate rid r (store a)) \<rparr>"

text \<open>Every state the application can be in: any interleaving of handlers, frames and renders.\<close>

inductive reachable :: "app \<Rightarrow> bool" where
  r_init: "reachable app_init"
| r_click: "reachable a \<Longrightarrow> reachable (onClick rid a)"
| r_missed: "reachable a \<Longrightarrow> reachable (onPointerMissed a)"
| r_context: "reachable a \<Longrightarrow> reachable (onContextMenu rid a)"
| r_render: "reachable a \<Longrightarrow> reachable (render a)"
| r_bundle: "reachable a \<Longrightarrow> reachable (CameraBundle count initHeight a)"
| r_frame: "reachable a \<Longrightarrow> reachable (a\<lparr> store := snd (useFrame_AuxCamera rid r (store a)) \<rparr>)"

definition gizmo_mode :: "app \<Rightarrow> string option" where
  \<comment> \<open>\<^verbatim>\<open>mode={modes[snap.mode]}\<close> of the camera's transform control, \<open>None\<close> for \<^verbatim>\<open>undefined\<close>\<close>
  "gizmo_mode a = (if mode (snap a) < length modes then Some (modes ! mode (snap a)) else None)"

subsection \<open>The specification's notions\<close>

text \<open>
  What a rig publishes each frame, the Euclidean distance, the cubic Bezier point in
  Bernstein form and the path as the specification describes it: one sampled segment per
  consecutive pair of rigs, concatenated in rig order.
\<close>

record published =
  focalWorldPos :: Vector3
  leftHandleWorldPos :: Vector3
  rightHandleWorldPos :: Vector3

definition distance :: "Vector3 \<Rightarrow> Vector3 \<Rightarrow> real" where
  "distance p q = sqrt ((vx p - vx q)\<^sup>2 + (vy p - vy q)\<^sup>2 + (vz p - vz q)\<^sup>2)"

definition bezier :: "Vector3 \<Rightarrow> Vector3 \<Rightarrow> Vector3 \<Rightarrow> Vector3 \<Rightarrow> real \<Rightarrow> Vector3" where
  "bezier p0 p1 p2 p3 t =
     add (add (multiplyScalar p0 ((1 - t) ^ 3)) (multiplyScalar p1 (3 * (1 - t)\<^sup>2 * t)))
         (add (multiplyScalar p2 (3 * (1 - t) * t\<^sup>2)) (multiplyScalar p3 (t ^ 3)))"

definition sample_segment :: "published \<Rightarrow> published \<Rightarrow> nat \<Rightarrow> Vector3 list" where
  "sample_segment a b samples =
     map (\<lambda>k. bezier (focalWorldPos a) (rightHandleWorldPos a)
                      (leftHandleWorldPos b) (focalWorldPos b) (real k / real samples))
         [0..<samples]"

fun buildPath :: "published list \<Rightarrow> nat \<Rightarrow> Vector3 list" where
  "buildPath (a # b # rigs) samples = sample_segment a b samples @ buildPath (b # rigs) samples"
| "buildPath rigs samples = []"

definition publishes :: "state \<Rightarrow> published list \<Rightarrow> bool" where
  \<comment> \<open>the first \<open>length rigs\<close> table entries are what the rigs published, in rig order\<close>
  "publishes s rigs =
     (take (length rigs) (focalPos s) = map (\<lambda>r. Some (focalWorldPos r)) rigs \<and>
      take (length rigs) (leftHandlePos s) = map (\<lambda>r. Some (leftHandleWorldPos r)) rigs \<and>
      take (length rigs) (rightHandlePos s) = map (\<lambda>r. Some (rightHandleWorldPos r)) rigs)"

subsection \<open>Concrete rigs and stores\<close>

text \<open>
  The two-rig scenario: cameras at \<open>(0, 1, 2.5)\<close> and \<open>(2, 1, 2.5)\<close>, both looking at
  \<open>(0, 1, 0)\<close>. The application reaches it from its two-rig layout (subject height 2, so
  \<^verbatim>\<open>initHeight = 1\<close>, cameras at \<open>x = -1\<close> and \<open>x = 1\<close>) by dragging each camera to its place
  by selecting each rig in turn and dragging its camera to its place and its focal sphere to
  the point one unit from the camera towards \<open>(0, 1, 0)\<close>, where \<^verbatim>\<open>CameraBundle\<close> puts the focal
  sphere of a new rig. A click on empty space ends the selection, and one frame of each rig
  publishes the focal and handle world positions.
\<close>

definition scenario_target :: Vector3 where
  "scenario_target = Vector3 0 1 0"

definition scenario_pos0 :: Vector3 where
  "scenario_pos0 = Vector3 0 1 2.5"

definition scenario_pos1 :: Vector3 where
  "scenario_pos1 = Vector3 2 1 2.5"

definition scenario_camera0 :: AuxCamera where
  "scenario_camera0 =
     drag_focal (initFocal_of scenario_pos0 scenario_target)
       (drag_camera scenario_pos0 (CameraBundle_rig 2 1 0))"

definition scenario_camera1 :: AuxCamera where
  "scenario_camera1 =
     drag_focal (initFocal_of scenario_pos1 scenario_target)
       (drag_camera scenario_pos1 (CameraBundle_rig 2 1 1))"

definition scenario_app :: app where
  "scenario_app =
     frame 1 scenario_camera1
       (frame 0 scenario_camera0
         (deselect (select 1 (select 0 (setCount 2 1 app_init)))))"

definition scenario_store :: state where
  "scenario_store = store scenario_app"

text \<open>A rig at the first camera position of the scenario, its camera not rotated.\<close>

definition scenario_rig0 :: AuxCamera where
  "scenario_rig0 =
     AuxCamera_init scenario_pos0 (Vector3 0 0 0) (initFocal_of scenario_pos0 scenario_target)
       (\<lambda>v. add scenario_pos0 v)"

text \<open>
  A store of three published rigs, and the same store after the third rig was removed and
  its stale entries were overwritten in place.
\<close>

definition three_rigs :: "published list" where
  "three_rigs =
     [\<lparr> focalWorldPos = Vector3 0 0 0, leftHandleWorldPos = Vector3 (- 1) 0 0,
        rightHandleWorldPos = Vector3 1 0 0 \<rparr>,
      \<lparr> focalWorldPos = Vector3 4 0 0, leftHandleWorldPos = Vector3 3 1 0,
        rightHandleWorldPos = Vector3 5 (- 1) 0 \<rparr>,
      \<lparr> focalWorldPos = Vector3 8 0 2, leftHandleWorldPos = Vector3 7 0 2,
        rightHandleWorldPos = Vector3 9 0 2 \<rparr>]"

definition store_of :: "published list \<Rightarrow> state" where
  "store_of rigs =
     \<lparr> focal = None,
       focalPos = map (\<lambda>r. Some (focalWorldPos r)) rigs,
       leftHandlePos = map (\<lambda>r. Some (leftHandleWorldPos r)) rigs,
       rightHandlePos = map (\<lambda>r. Some (rightHandleWorldPos r)) rigs,
       mode = 0 \<rparr>"

definition stale_store :: state where
  "stale_store =
     (store_of three_rigs)
       \<lparr> focalPos := array_set (focalPos (store_of three_rigs)) 2 (Vector3 6 6 6),
         leftHandlePos := array_set (leftHandlePos (store_of three_rigs)) 2 (Vector3 5 5 5),
         rightHandlePos := array_set (rightHandlePos (store_of three_rigs)) 2 (Vector3 7 7 7) \<rparr>"

section \<open>Properties\<close>

subsection \<open>Sampling a curve\<close>

lemma length_getPoints: "length (getPoints c n) = Suc n"
  by (simp add: getPoints_def)

lemma getPoints_nth: "k \<le> n \<Longrightarrow> getPoints c n ! k = getPoint c (real k / real n)"
  by (simp add: getPoints_def del: upt_Suc)

text \<open>The library's sum of four Bernstein terms is the Bezier point of the textbook formula.\<close>

lemma getPoint_bezier: "getPoint (CubicBezierCurve3 p0 p1 p2 p3) t = bezier p0 p1 p2 p3 t"
  by (simp add: getPoint_def bezier_def CubicBezier_def CubicBezierP0_def CubicBezierP1_def
      CubicBezierP2_def CubicBezierP3_def add_def multiplyScalar_def power2_eq_square
      power3_eq_cube algebra_simps)

lemma bezier_0: "bezier p0 p1 p2 p3 0 = p0"
  by (simp add: bezier_def add_def multiplyScalar_def)

lemma bezier_1: "bezier p0 p1 p2 p3 1 = p3"
  by (simp add: bezier_def add_def multiplyScalar_def)

text \<open>
  The inner loop reads \<^verbatim>\<open>points[0 .. samples - 1]\<close> of \<^verbatim>\<open>samples + 1\<close> points, so every read is
  in range and the parameter \<open>t = 1\<close> is the one point that is not copied.
\<close>

lemma segment_verts_eq:
  "segment_verts c n = concat (map (\<lambda>k. coords (getPoint c (real k / real n))) [0..<n])"
  unfolding segment_verts_def Let_def
  by (rule arg_cong[where f=concat], rule map_cong) (simp_all add: getPoints_nth)

lemma length_segment_verts: "length (segment_verts c n) = 3 * n"
  by (simp add: segment_verts_eq length_concat coords_def comp_def sum_list_triv)

subsection \<open>Position buffers\<close>

lemma vertex_count_coords: "vertex_count (concat (map coords ps)) = length ps"
  by (simp add: vertex_count_def length_concat comp_def coords_def sum_list_triv)

lemma vertex_coords_append: "vertex (coords p @ buf) (Suc k) = vertex buf k"
  by (simp add: vertex_def coords_def)

lemma vertex_coords_0: "vertex (coords p @ buf) 0 = p"
  by (simp add: vertex_def coords_def)

lemma vertex_concat_coords: "k < length ps \<Longrightarrow> vertex (concat (map coords ps)) k = ps ! k"
proof (induction ps arbitrary: k)
  case Nil
  then show ?case by simp
next
  case (Cons p ps)
  then show ?case
    by (cases k) (simp_all add: vertex_coords_append vertex_coords_0)
qed

lemma concat_map_concat_blocks:
  "concat (map f (concat xss)) = concat (map (\<lambda>xs. concat (map f xs)) xss)"
  by (induction xss) simp_all

subsection \<open>The path of the specification, by index\<close>

lemma buildPath_index:
  "buildPath rigs n =
     concat (map (\<lambda>i. sample_segment (rigs ! i) (rigs ! Suc i) n) [0..<length rigs - 1])"
proof (induction rigs n rule: buildPath.induct)
  case (1 a b rigs samples)
  have "[0..<length (a # b # rigs) - 1] = 0 # map Suc [0..<length (b # rigs) - 1]"
    by (simp add: upt_conv_Cons map_Suc_upt del: upt_Suc)
  then show ?case using 1 by (simp add: comp_def del: upt_Suc)
qed simp_all

lemma length_buildPath: "length (buildPath rigs n) = (length rigs - 1) * n"
  by (induction rigs n rule: buildPath.induct) (simp_all add: sample_segment_def)

lemma sample_segment_nth:
  "k < n \<Longrightarrow> sample_segment a b n ! k =
     bezier (focalWorldPos a) (rightHandleWorldPos a) (leftHandleWorldPos b) (focalWorldPos b)
            (real k / real n)"
  by (simp add: sample_segment_def)

subsection \<open>\<^verbatim>\<open>computeCurve\<close> against the path of the specification\<close>

lemma array_get_map_Some:
  "i < length xs \<Longrightarrow> array_get (map (\<lambda>r. Some (f r)) xs) i = Some (f (xs ! i))"
  by (simp add: array_get_def)

lemma segment_verts_published:
  assumes "i < length rigs - 1"
  shows "segment_verts
           (segment_curve (map (\<lambda>r. Some (focalWorldPos r)) rigs)
                          (map (\<lambda>r. Some (leftHandleWorldPos r)) rigs)
                          (map (\<lambda>r. Some (rightHandleWorldPos r)) rigs) i) n
         = concat (map coords (sample_segment (rigs ! i) (rigs ! Suc i) n))"
proof -
  from assms have "i < length rigs" "Suc i < length rigs" by simp_all
  then show ?thesis
    by (simp add: segment_verts_eq segment_curve_def array_get_map_Some curve_arg_def
        getPoint_bezier sample_segment_def comp_def)
qed

lemma computeCurve_published:
  assumes "publishes s rigs"
  shows "computeCurve s (length rigs) n = concat (map coords (buildPath rigs n))"
proof -
  let ?fp = "map (\<lambda>r. Some (focalWorldPos r)) rigs"
  let ?lp = "map (\<lambda>r. Some (leftHandleWorldPos r)) rigs"
  let ?rp = "map (\<lambda>r. Some (rightHandleWorldPos r)) rigs"
  from assms have "computeCurve s (length rigs) n =
      concat (map (\<lambda>i. segment_verts (segment_curve ?fp ?lp ?rp i) n) [0..<length rigs - 1])"
    by (simp add: computeCurve_def publishes_def slice0_def)
  also have "\<dots> = concat (map (\<lambda>i. concat (map coords (sample_segment (rigs ! i) (rigs ! Suc i) n)))
                         [0..<length rigs - 1])"
    by (rule arg_cong[where f=concat], rule map_cong) (simp_all add: segment_verts_published)
  also have "\<dots> = concat (map coords (buildPath rigs n))"
    by (simp add: buildPath_index concat_map_concat_blocks comp_def)
  finally show ?thesis .
qed

text \<open>
  \<^verbatim>\<open>CameraBundle\<close> on an empty store enters every rig \<open>0 .. count - 1\<close> in all three tables, so
  the tables the path builder reads are always filled for the rigs that exist.
\<close>

lemma publish_init_fresh:
  assumes "focalPos s = map (\<lambda>i. Some (f i)) [0..<m]"
    and "leftHandlePos s = map (\<lambda>i. Some (p i)) [0..<m]"
    and "rightHandlePos s = map (\<lambda>i. Some (p i)) [0..<m]"
  shows "focalPos (publish_init m (p m) (f m) s) = map (\<lambda>i. Some (f i)) [0..<Suc m]
       \<and> leftHandlePos (publish_init m (p m) (f m) s) = map (\<lambda>i. Some (p i)) [0..<Suc m]
       \<and> rightHandlePos (publish_init m (p m) (f m) s) = map (\<lambda>i. Some (p i)) [0..<Suc m]"
  using assms by (simp add: publish_init_def array_in_def array_get_def array_set_def)

lemma fold_publish_fresh:
  "focalPos (fold (\<lambda>rid s'. publish_init rid (p rid) (f rid) s') [0..<n] state_init)
       = map (\<lambda>i. Some (f i)) [0..<n]
   \<and> leftHandlePos (fold (\<lambda>rid s'. publish_init rid (p rid) (f rid) s') [0..<n] state_init)
       = map (\<lambda>i. Some (p i)) [0..<n]
   \<and> rightHandlePos (fold (\<lambda>rid s'. publish_init rid (p rid) (f rid) s') [0..<n] state_init)
       = map (\<lambda>i. Some (p i)) [0..<n]"
proof (induction n)
  case 0
  show ?case by (simp add: state_init_def)
next
  case (Suc n)
  then show ?case
    using publish_init_fresh[of "fold (\<lambda>rid s'. publish_init rid (p rid) (f rid) s') [0..<n] state_init" f n p]
    by simp
qed

lemma CameraBundle_body_publishes:
  "publishes (CameraBundle_body count h state_init)
     (map (\<lambda>i. \<lparr> focalWorldPos = initFocal_of (CameraBundle_initPos count h i) (Vector3 0 h 0),
                  leftHandleWorldPos = CameraBundle_initPos count h i,
                  rightHandleWorldPos = CameraBundle_initPos count h i \<rparr>) [0..<count])"
  using fold_publish_fresh[of "\<lambda>i. CameraBundle_initPos count h i"
      "\<lambda>i. initFocal_of (CameraBundle_initPos count h i) (Vector3 0 h 0)" count]
  by (simp add: publishes_def CameraBundle_body_def Let_def comp_def)

text \<open>
  Claim C1. For an ordered collection of \<open>n\<close> rigs whose published focal and handle positions
  are the first \<open>n\<close> entries of the store's tables: with \<open>n < 2\<close> no path is produced and the
  vertex list is empty; with \<open>n \<ge> 2\<close> the position buffer is the concatenation, in rig order,
  of the sampled Bezier segments with control points
  \<open>focal\<^sub>i, rightHandle\<^sub>i, leftHandle\<^sub>i\<^sub>+\<^sub>1, focal\<^sub>i\<^sub>+\<^sub>1\<close> of the consecutive pairs, and it holds
  exactly \<open>(n - 1) * samples\<close> points.
\<close>

theorem spline_path_segments:
  assumes "publishes s rigs"
  shows "(length rigs < 2 \<longrightarrow>
            Spline s (length rigs) samples = None \<and> computeCurve s (length rigs) samples = [])
       \<and> (2 \<le> length rigs \<longrightarrow>
            Spline s (length rigs) samples = Some (concat (map coords (buildPath rigs samples)))
            \<and> length (buildPath rigs samples) = (length rigs - 1) * samples
            \<and> vertex_count (computeCurve s (length rigs) samples) = (length rigs - 1) * samples)"
proof -
  have cc: "computeCurve s (length rigs) samples = concat (map coords (buildPath rigs samples))"
    using assms by (rule computeCurve_published)
  have len: "length (buildPath rigs samples) = (length rigs - 1) * samples"
    by (rule length_buildPath)
  have small: "length rigs < 2 \<Longrightarrow> buildPath rigs samples = []"
    using len by simp
  show ?thesis
    by (auto simp: Spline_def cc small vertex_count_coords len)
qed

theorem spline_path_segments_witness:
  "publishes stale_store (take 2 three_rigs) \<and> 2 \<le> length (take 2 three_rigs)
   \<and> Spline stale_store (length (take 2 three_rigs)) 4
       = Some (concat (map coords (buildPath (take 2 three_rigs) 4)))
   \<and> vertex_count (computeCurve stale_store (length (take 2 three_rigs)) 4) = 4
   \<and> publishes stale_store (take 1 three_rigs) \<and> length (take 1 three_rigs) < 2
   \<and> Spline stale_store (length (take 1 three_rigs)) 4 = None"
proof -
  have p2: "publishes stale_store (take 2 three_rigs)"
    by (simp add: publishes_def stale_store_def store_of_def three_rigs_def array_set_def)
  have p1: "publishes stale_store (take 1 three_rigs)"
    by (simp add: publishes_def stale_store_def store_of_def three_rigs_def array_set_def)
  have l3: "length three_rigs = 3"
    by (simp add: three_rigs_def)
  show ?thesis
    using spline_path_segments[OF p2, of 4] spline_path_segments[OF p1, of 4] p1 p2
    by (simp add: l3)
qed

text \<open>
  Claim C10. The path depends only on the first \<open>count\<close> entries of the three tables: two
  stores that agree there give the same position buffer, whatever stale entries of removed
  rigs either holds at the indices from \<open>count\<close> on.
\<close>

theorem path_ignores_stale_entries:
  assumes "take count (focalPos s) = take count (focalPos s')"
    and "take count (leftHandlePos s) = take count (leftHandlePos s')"
    and "take count (rightHandlePos s) = take count (rightHandlePos s')"
  shows "computeCurve s count samples = computeCurve s' count samples
       \<and> Spline s count samples = Spline s' count samples"
  using assms by (simp add: computeCurve_def Spline_def slice0_def)

theorem path_ignores_stale_entries_witness:
  "take 2 (focalPos stale_store) = take 2 (focalPos (store_of three_rigs))
   \<and> take 2 (leftHandlePos stale_store) = take 2 (leftHandlePos (store_of three_rigs))
   \<and> take 2 (rightHandlePos stale_store) = take 2 (rightHandlePos (store_of three_rigs))
   \<and> focalPos stale_store \<noteq> focalPos (store_of three_rigs)
   \<and> computeCurve stale_store 2 3 = computeCurve (store_of three_rigs) 2 3
   \<and> Spline stale_store 2 3 = Spline (store_of three_rigs) 2 3"
proof -
  have a: "take 2 (focalPos stale_store) = take 2 (focalPos (store_of three_rigs))"
    and b: "take 2 (leftHandlePos stale_store) = take 2 (leftHandlePos (store_of three_rigs))"
    and c: "take 2 (rightHandlePos stale_store) = take 2 (rightHandlePos (store_of three_rigs))"
    and d: "focalPos stale_store \<noteq> focalPos (store_of three_rigs)"
    by (simp_all add: stale_store_def store_of_def three_rigs_def array_set_def)
  show ?thesis using path_ignores_stale_entries[OF a b c, of 3] a b c d by simp
qed

subsection \<open>The frustum wireframe\<close>

lemma invert_perspective:
  assumes "x \<noteq> 0" "y \<noteq> 0" "d \<noteq> 0"
  shows "invert (Matrix4 x 0 0 0  0 y 0 0  0 0 c (- 1)  0 0 d 0)
         = Matrix4 (1 / x) 0 0 0  0 (1 / y) 0 0  0 0 0 (1 / d)  0 0 (- 1) (c / d)"
  using assms by (simp add: invert_def Let_def field_simps)

lemma projectionMatrix_closed:
  assumes "t = Math_tan (DEG2RAD * 0.5 * fv)" "t \<noteq> 0" "asp \<noteq> 0" "n \<noteq> 0"
  shows "projectionMatrix fv asp n f
         = Matrix4 (1 / (asp * t)) 0 0 0  0 (1 / t) 0 0
                   0 0 (- (f + n) / (f - n)) (- 1)  0 0 ((- 2 * f * n) / (f - n)) 0"
  using assms by (simp add: projectionMatrix_def makePerspective_def Let_def field_simps)

text \<open>Over the whole valid range of the field of view, 180 degrees included, the tangent of
  half the angle is positive.\<close>

lemma tan_half_fov_pos:
  assumes "0 < fv" "fv \<le> 180"
  shows "0 < Math_tan (DEG2RAD * 0.5 * fv)"
proof (cases "fv = 180")
  case True
  then show ?thesis by (simp add: Math_tan_def DEG2RAD_def)
next
  case False
  with assms have lt: "fv < 180" by simp
  have pos: "0 < DEG2RAD * 0.5 * fv" using assms by (simp add: DEG2RAD_def)
  have less: "DEG2RAD * 0.5 * fv < pi / 2" using lt by (simp add: DEG2RAD_def field_simps)
  from pos less have "0 < tan (DEG2RAD * 0.5 * fv)" by (rule tan_gt_zero)
  moreover from less have "DEG2RAD * 0.5 * fv \<noteq> pi / 2" by simp
  ultimately show ?thesis by (simp only: Math_tan_def if_False)
qed

lemma projectionMatrixInverse_closed:
  assumes "0 < fv" "fv \<le> 180" "0 < asp" "0 < n" "n < f"
  shows "projectionMatrixInverse fv asp n f
         = Matrix4 (asp * Math_tan (DEG2RAD * 0.5 * fv)) 0 0 0
                   0 (Math_tan (DEG2RAD * 0.5 * fv)) 0 0
                   0 0 0 ((n - f) / (2 * f * n))  0 0 (- 1) ((f + n) / (2 * f * n))"
proof -
  define t where "t = Math_tan (DEG2RAD * 0.5 * fv)"
  have t: "0 < t" unfolding t_def by (rule tan_half_fov_pos[OF assms(1,2)])
  have d: "(- 2 * f * n) / (f - n) \<noteq> 0" using assms by simp
  have pm: "projectionMatrix fv asp n f
         = Matrix4 (1 / (asp * t)) 0 0 0  0 (1 / t) 0 0
                   0 0 (- (f + n) / (f - n)) (- 1)  0 0 ((- 2 * f * n) / (f - n)) 0"
    using t assms by (intro projectionMatrix_closed) (simp_all add: t_def)
  have x: "1 / (asp * t) \<noteq> 0" "1 / t \<noteq> 0" using t assms by simp_all
  show ?thesis
    unfolding projectionMatrixInverse_def pm invert_perspective[OF x d] t_def[symmetric]
    using assms t by (simp add: field_simps)
qed

text \<open>
  For lens values in range the four corners are the far-plane corners of the view volume,
  and projecting a corner gives back the corner of the normalized cube it was made from.
\<close>

lemma corner_closed:
  assumes "0 < fv" "fv \<le> 180" "0 < asp" "0 < n" "n < f"
  shows "applyMatrix4 (Vector3 sx sy 1) (projectionMatrixInverse fv asp n f)
         = Vector3 (sx * (f * asp * Math_tan (DEG2RAD * 0.5 * fv)))
                   (sy * (f * Math_tan (DEG2RAD * 0.5 * fv))) (- f)"
  using assms by (simp add: projectionMatrixInverse_closed applyMatrix4_def Let_def field_simps)

lemma corner_roundtrip:
  assumes "0 < fv" "fv \<le> 180" "0 < asp" "0 < n" "n < f"
  shows "applyMatrix4 (applyMatrix4 (Vector3 sx sy 1) (projectionMatrixInverse fv asp n f))
                      (projectionMatrix fv asp n f) = Vector3 sx sy 1"
proof -
  define t where "t = Math_tan (DEG2RAD * 0.5 * fv)"
  have t: "0 < t" unfolding t_def by (rule tan_half_fov_pos[OF assms(1,2)])
  have pm: "projectionMatrix fv asp n f
         = Matrix4 (1 / (asp * t)) 0 0 0  0 (1 / t) 0 0
                   0 0 (- (f + n) / (f - n)) (- 1)  0 0 ((- 2 * f * n) / (f - n)) 0"
    using t assms by (intro projectionMatrix_closed) (simp_all add: t_def)
  have "0 < (f - n) * (f - n)" using assms by simp
  then have ne: "f * f + n * n \<noteq> f * (n * 2)" by (simp add: algebra_simps)
  show ?thesis
    unfolding corner_closed[OF assms] pm t_def[symmetric]
    using assms t ne by (simp add: applyMatrix4_def Let_def field_simps)
qed

lemma ComputeFrustumVertices_unfold:
  "ComputeFrustumVertices fv asp n f =
     concat (map coords
       [Vector3 0 0 0,
        applyMatrix4 (Vector3 (- 1) (- 1) 1) (projectionMatrixInverse fv asp n f),
        applyMatrix4 (Vector3 (- 1) 1 1) (projectionMatrixInverse fv asp n f),
        applyMatrix4 (Vector3 1 1 1) (projectionMatrixInverse fv asp n f),
        applyMatrix4 (Vector3 1 (- 1) 1) (projectionMatrixInverse fv asp n f)])"
  by (simp add: ComputeFrustumVertices_def Let_def)

lemma vertex_count_frustum: "vertex_count (ComputeFrustumVertices fv asp n f) = 5"
  unfolding ComputeFrustumVertices_unfold vertex_count_coords by simp

lemma frustum_vertices:
  "vertex (ComputeFrustumVertices fv asp n f) 0 = Vector3 0 0 0"
  "vertex (ComputeFrustumVertices fv asp n f) 1
     = applyMatrix4 (Vector3 (- 1) (- 1) 1) (projectionMatrixInverse fv asp n f)"
  "vertex (ComputeFrustumVertices fv asp n f) 2
     = applyMatrix4 (Vector3 (- 1) 1 1) (projectionMatrixInverse fv asp n f)"
  "vertex (ComputeFrustumVertices fv asp n f) 3
     = applyMatrix4 (Vector3 1 1 1) (projectionMatrixInverse fv asp n f)"
  "vertex (ComputeFrustumVertices fv asp n f) 4
     = applyMatrix4 (Vector3 1 (- 1) 1) (projectionMatrixInverse fv asp n f)"
  unfolding ComputeFrustumVertices_unfold by (subst vertex_concat_coords; simp)+

lemma Math_tan_45: "Math_tan (DEG2RAD * 0.5 * 90) = 1"
proof -
  have e: "DEG2RAD * 0.5 * 90 = pi / 4" by (simp add: DEG2RAD_def)
  show ?thesis unfolding e Math_tan_def by (simp add: tan_45)
qed

lemma Math_tan_90: "Math_tan (DEG2RAD * 0.5 * 180) = 16331239353195370"
proof -
  have e: "DEG2RAD * 0.5 * 180 = pi / 2" by (simp add: DEG2RAD_def)
  show ?thesis unfolding e Math_tan_def by simp
qed

text \<open>
  Claim C2. For every intrinsics tuple (fov, aspect, near, far) the frustum builder returns
  exactly 5 vertices and 18 indices; the first vertex is the apex \<open>(0, 0, 0)\<close> and the other
  four are what the code's inverse projection matrix makes of the corners \<open>(-1, -1, 1)\<close>,
  \<open>(-1, 1, 1)\<close>, \<open>(1, 1, 1)\<close>, \<open>(1, -1, 1)\<close> of the normalized cube. For every valid tuple
  (\<open>0 < fov \<le> 180\<close>, \<open>aspect > 0\<close>, \<open>0 < near < far\<close>) these are the un-projected corners: the
  points \<open>(\<plusminus> far aspect tan (fov / 2), \<plusminus> far tan (fov / 2), - far)\<close> of the far plane, each of
  which the perspective projection of those intrinsics sends back to its corner of the cube.
\<close>

theorem frustum_wireframe:
  "vertex_count (ComputeFrustumVertices fv asp n f) = 5
   \<and> length (ComputeFrustumVertices fv asp n f) = 3 * 5
   \<and> length frustum_indices = 18
   \<and> vertex (ComputeFrustumVertices fv asp n f) 0 = Vector3 0 0 0
   \<and> vertex (ComputeFrustumVertices fv asp n f) 1
       = applyMatrix4 (Vector3 (- 1) (- 1) 1) (projectionMatrixInverse fv asp n f)
   \<and> vertex (ComputeFrustumVertices fv asp n f) 2
       = applyMatrix4 (Vector3 (- 1) 1 1) (projectionMatrixInverse fv asp n f)
   \<and> vertex (ComputeFrustumVertices fv asp n f) 3
       = applyMatrix4 (Vector3 1 1 1) (projectionMatrixInverse fv asp n f)
   \<and> vertex (ComputeFrustumVertices fv asp n f) 4
       = applyMatrix4 (Vector3 1 (- 1) 1) (projectionMatrixInverse fv asp n f)
   \<and> (0 < fv \<and> fv \<le> 180 \<and> 0 < asp \<and> 0 < n \<and> n < f \<longrightarrow>
        vertex (ComputeFrustumVertices fv asp n f) 1
          = Vector3 (- (f * asp * Math_tan (DEG2RAD * 0.5 * fv)))
                    (- (f * Math_tan (DEG2RAD * 0.5 * fv))) (- f)
      \<and> vertex (ComputeFrustumVertices fv asp n f) 2
          = Vector3 (- (f * asp * Math_tan (DEG2RAD * 0.5 * fv)))
                    (f * Math_tan (DEG2RAD * 0.5 * fv)) (- f)
      \<and> vertex (ComputeFrustumVertices fv asp n f) 3
          = Vector3 (f * asp * Math_tan (DEG2RAD * 0.5 * fv))
                    (f * Math_tan (DEG2RAD * 0.5 * fv)) (- f)
      \<and> vertex (ComputeFrustumVertices fv asp n f) 4
          = Vector3 (f * asp * Math_tan (DEG2RAD * 0.5 * fv))
                    (- (f * Math_tan (DEG2RAD * 0.5 * fv))) (- f)
      \<and> applyMatrix4 (vertex (ComputeFrustumVertices fv asp n f) 1) (projectionMatrix fv asp n f)
          = Vector3 (- 1) (- 1) 1
      \<and> applyMatrix4 (vertex (ComputeFrustumVertices fv asp n f) 2) (projectionMatrix fv asp n f)
          = Vector3 (- 1) 1 1
      \<and> applyMatrix4 (vertex (ComputeFrustumVertices fv asp n f) 3) (projectionMatrix fv asp n f)
          = Vector3 1 1 1
      \<and> applyMatrix4 (vertex (ComputeFrustumVertices fv asp n f) 4) (projectionMatrix fv asp n f)
          = Vector3 1 (- 1) 1)"
proof -
  let ?buf = "ComputeFrustumVertices fv asp n f"
  have cnt: "vertex_count ?buf = 5"
    by (rule vertex_count_frustum)
  have len: "length ?buf = 3 * 5"
    by (simp add: ComputeFrustumVertices_def Let_def coords_def)
  have idx: "length frustum_indices = 18"
    by (simp add: frustum_indices_def)
  have v0: "vertex ?buf 0 = Vector3 0 0 0"
    by (rule frustum_vertices)
  have valid: "0 < fv \<and> fv \<le> 180 \<and> 0 < asp \<and> 0 < n \<and> n < f \<longrightarrow>
        vertex ?buf 1 = Vector3 (- (f * asp * Math_tan (DEG2RAD * 0.5 * fv)))
                                (- (f * Math_tan (DEG2RAD * 0.5 * fv))) (- f)
      \<and> vertex ?buf 2 = Vector3 (- (f * asp * Math_tan (DEG2RAD * 0.5 * fv)))
                                (f * Math_tan (DEG2RAD * 0.5 * fv)) (- f)
      \<and> vertex ?buf 3 = Vector3 (f * asp * Math_tan (DEG2RAD * 0.5 * fv))
                                (f * Math_tan (DEG2RAD * 0.5 * fv)) (- f)
      \<and> vertex ?buf 4 = Vector3 (f * asp * Math_tan (DEG2RAD * 0.5 * fv))
                                (- (f * Math_tan (DEG2RAD * 0.5 * fv))) (- f)
      \<and> applyMatrix4 (vertex ?buf 1) (projectionMatrix fv asp n f) = Vector3 (- 1) (- 1) 1
      \<and> applyMatrix4 (vertex ?buf 2) (projectionMatrix fv asp n f) = Vector3 (- 1) 1 1
      \<and> applyMatrix4 (vertex ?buf 3) (projectionMatrix fv asp n f) = Vector3 1 1 1
      \<and> applyMatrix4 (vertex ?buf 4) (projectionMatrix fv asp n f) = Vector3 1 (- 1) 1"
  proof (intro impI)
    assume h: "0 < fv \<and> fv \<le> 180 \<and> 0 < asp \<and> 0 < n \<and> n < f"
    then have a: "0 < fv" "fv \<le> 180" "0 < asp" "0 < n" "n < f" by simp_all
    have c1: "applyMatrix4 (Vector3 (- 1) (- 1) 1) (projectionMatrixInverse fv asp n f)
         = Vector3 (- (f * asp * Math_tan (DEG2RAD * 0.5 * fv)))
                   (- (f * Math_tan (DEG2RAD * 0.5 * fv))) (- f)"
      using corner_closed[OF a, of "- 1" "- 1"] by simp
    have c2: "applyMatrix4 (Vector3 (- 1) 1 1) (projectionMatrixInverse fv asp n f)
         = Vector3 (- (f * asp * Math_tan (DEG2RAD * 0.5 * fv)))
                   (f * Math_tan (DEG2RAD * 0.5 * fv)) (- f)"
      using corner_closed[OF a, of "- 1" 1] by simp
    have c3: "applyMatrix4 (Vector3 1 1 1) (projectionMatrixInverse fv asp n f)
         = Vector3 (f * asp * Math_tan (DEG2RAD * 0.5 * fv))
                   (f * Math_tan (DEG2RAD * 0.5 * fv)) (- f)"
      using corner_closed[OF a, of 1 1] by simp
    have c4: "applyMatrix4 (Vector3 1 (- 1) 1) (projectionMatrixInverse fv asp n f)
         = Vector3 (f * asp * Math_tan (DEG2RAD * 0.5 * fv))
                   (- (f * Math_tan (DEG2RAD * 0.5 * fv))) (- f)"
      using corner_closed[OF a, of 1 "- 1"] by simp
    have r: "applyMatrix4 (applyMatrix4 (Vector3 sx sy 1) (projectionMatrixInverse fv asp n f))
                      (projectionMatrix fv asp n f) = Vector3 sx sy 1" for sx sy
      by (rule corner_roundtrip[OF a])
    show "vertex ?buf 1 = Vector3 (- (f * asp * Math_tan (DEG2RAD * 0.5 * fv)))
                                (- (f * Math_tan (DEG2RAD * 0.5 * fv))) (- f)
      \<and> vertex ?buf 2 = Vector3 (- (f * asp * Math_tan (DEG2RAD * 0.5 * fv)))
                                (f * Math_tan (DEG2RAD * 0.5 * fv)) (- f)
      \<and> vertex ?buf 3 = Vector3 (f * asp * Math_tan (DEG2RAD * 0.5 * fv))
                                (f * Math_tan (DEG2RAD * 0.5 * fv)) (- f)
      \<and> vertex ?buf 4 = Vector3 (f * asp * Math_tan (DEG2RAD * 0.5 * fv))
                                (- (f * Math_tan (DEG2RAD * 0.5 * fv))) (- f)
      \<and> applyMatrix4 (vertex ?buf 1) (projectionMatrix fv asp n f) = Vector3 (- 1) (- 1) 1
      \<and> applyMatrix4 (vertex ?buf 2) (projectionMatrix fv asp n f) = Vector3 (- 1) 1 1
      \<and> applyMatrix4 (vertex ?buf 3) (projectionMatrix fv asp n f) = Vector3 1 1 1
      \<and> applyMatrix4 (vertex ?buf 4) (projectionMatrix fv asp n f) = Vector3 1 (- 1) 1"
      unfolding frustum_vertices
      using c1 c2 c3 c4 r[of "- 1" "- 1"] r[of "- 1" 1] r[of 1 1] r[of 1 "- 1"]
      by (intro conjI)
  qed
  show ?thesis
    using cnt len idx v0 frustum_vertices(2-5)[of fv asp n f] valid by (intro conjI)
qed

theorem frustum_wireframe_witness:
  "(0::real) < 90 \<and> (90::real) \<le> 180 \<and> (0::real) < 1 \<and> (1::real) < 3
   \<and> vertex_count (ComputeFrustumVertices 90 1 1 3) = 5
   \<and> vertex (ComputeFrustumVertices 90 1 1 3) 0 = Vector3 0 0 0
   \<and> vertex (ComputeFrustumVertices 90 1 1 3) 1 = Vector3 (- 3) (- 3) (- 3)
   \<and> vertex (ComputeFrustumVertices 90 1 1 3) 3 = Vector3 3 3 (- 3)
   \<and> applyMatrix4 (vertex (ComputeFrustumVertices 90 1 1 3) 1) (projectionMatrix 90 1 1 3)
       = Vector3 (- 1) (- 1) 1
   \<and> (0::real) < 180 \<and> (180::real) \<le> 180 \<and> (0::real) < 8 / 5 \<and> (0::real) < 1 / 10
   \<and> (1::real) / 10 < 3
   \<and> vertex (ComputeFrustumVertices 180 (8 / 5) (1 / 10) 3) 3
       = Vector3 78389948895337776 48993718059586110 (- 3)"
proof -
  have h: "(0::real) < 90 \<and> (90::real) \<le> 180 \<and> (0::real) < 1 \<and> (0::real) < 1 \<and> (1::real) < 3"
    by simp
  have h': "(0::real) < 180 \<and> (180::real) \<le> 180 \<and> (0::real) < 8 / 5 \<and> (0::real) < 1 / 10
            \<and> (1::real) / 10 < 3"
    by simp
  note w = frustum_wireframe[of 90 1 1 3]
  have cnt: "vertex_count (ComputeFrustumVertices 90 1 1 3) = 5"
    and v0: "vertex (ComputeFrustumVertices 90 1 1 3) 0 = Vector3 0 0 0"
    using w by blast+
  have "vertex (ComputeFrustumVertices 90 1 1 3) 1
          = Vector3 (- (3 * 1 * Math_tan (DEG2RAD * 0.5 * 90)))
                    (- (3 * Math_tan (DEG2RAD * 0.5 * 90))) (- 3)"
    using w h by blast
  then have v1: "vertex (ComputeFrustumVertices 90 1 1 3) 1 = Vector3 (- 3) (- 3) (- 3)"
    unfolding Math_tan_45 by simp
  have "vertex (ComputeFrustumVertices 90 1 1 3) 3
          = Vector3 (3 * 1 * Math_tan (DEG2RAD * 0.5 * 90))
                    (3 * Math_tan (DEG2RAD * 0.5 * 90)) (- 3)"
    using w h by blast
  then have v3: "vertex (ComputeFrustumVertices 90 1 1 3) 3 = Vector3 3 3 (- 3)"
    unfolding Math_tan_45 by simp
  have rt: "applyMatrix4 (vertex (ComputeFrustumVertices 90 1 1 3) 1) (projectionMatrix 90 1 1 3)
       = Vector3 (- 1) (- 1) 1"
    using w h by blast
  have "vertex (ComputeFrustumVertices 180 (8 / 5) (1 / 10) 3) 3
          = Vector3 (3 * (8 / 5) * Math_tan (DEG2RAD * 0.5 * 180))
                    (3 * Math_tan (DEG2RAD * 0.5 * 180)) (- 3)"
    using frustum_wireframe[of 180 "8 / 5" "1 / 10" 3] h' by blast
  then have b: "vertex (ComputeFrustumVertices 180 (8 / 5) (1 / 10) 3) 3
       = Vector3 78389948895337776 48993718059586110 (- 3)"
    unfolding Math_tan_90 by simp
  show ?thesis using cnt v0 v1 v3 rt b by simp
qed

subsection \<open>Handle depth\<close>

lemma z_depth_distance: "z_depth p q = - distance p q"
  by (simp add: z_depth_def distance_def length_v_def sub_def power2_eq_square)

text \<open>
  Claim C3. For every camera position and focal position, after the per-frame update of a
  rig the depth used to place both tangent handles in camera-local space is the negated
  Euclidean distance between the camera and the focal point, and the handles sit at
  \<open>(- leftHandle, 0, zDepth)\<close> and \<open>(rightHandle, 0, zDepth)\<close>. The update a gizmo drag runs
  (\<^verbatim>\<open>updateFocal\<close>) writes the same depth.
\<close>

theorem handles_at_focal_depth:
  "z_depth (pos (fst (perFrameUpdate rid r s))) (foc (fst (perFrameUpdate rid r s)))
     = - distance (camera_position r) (focal_position r)
   \<and> camera_position (fst (perFrameUpdate rid r s)) = camera_position r
   \<and> focal_position (fst (perFrameUpdate rid r s)) = focal_position r
   \<and> leftHandle_position (fst (perFrameUpdate rid r s))
       = Vector3 (- leftHandle r) 0 (- distance (camera_position r) (focal_position r))
   \<and> rightHandle_position (fst (perFrameUpdate rid r s))
       = Vector3 (rightHandle r) 0 (- distance (camera_position r) (focal_position r))
   \<and> vz (leftHandle_position (updateFocal lookAt r))
       = - distance (camera_position r) (focal_position r)
   \<and> vz (rightHandle_position (updateFocal lookAt r))
       = - distance (camera_position r) (focal_position r)"
  by (simp add: perFrameUpdate_def useFrame_AuxCamera_def AuxCamera_render_def updateFocal_def
      Let_def z_depth_distance z_depth_def[symmetric])

subsection \<open>Lens values\<close>

lemma clamp_range: "lo \<le> hi \<Longrightarrow> lo \<le> clamp v lo hi \<and> clamp v lo hi \<le> hi"
  by (simp add: clamp_def)

text \<open>
  Claim C5, as the code has it. A rig is constructed without intrinsics and starts with
  fov 55, aspect 1.6, near 0.1 and far 3; nothing is validated and nothing fails, and the
  frustum builder returns its five vertices for any lens values. A lens value written later
  is clamped silently into its control's range: fov into \<open>[0, 180]\<close>, near into \<open>[0.01, 1]\<close>,
  far into \<open>[1, 10]\<close>, aspect into \<open>[0.1, 10]\<close>; so near never exceeds far.
\<close>

theorem intrinsics_clamped_to_control_ranges:
  "0 \<le> fov (set_fov v r) \<and> fov (set_fov v r) \<le> 180
   \<and> 0.01 \<le> near (set_near v r) \<and> near (set_near v r) \<le> 1
   \<and> 1 \<le> far (set_far v r) \<and> far (set_far v r) \<le> 10
   \<and> 0.1 \<le> aspect (set_aspect v r) \<and> aspect (set_aspect v r) \<le> 10
   \<and> near (set_near v r) \<le> far (set_far w r')
   \<and> fov (AuxCamera_init initPos initRot initFocal world) = 55
   \<and> aspect (AuxCamera_init initPos initRot initFocal world) = 1.6
   \<and> near (AuxCamera_init initPos initRot initFocal world) = 0.1
   \<and> far (AuxCamera_init initPos initRot initFocal world) = 3
   \<and> vertex_count (fst (Frustum r)) = 5"
proof -
  have f: "0 \<le> fov (set_fov v r) \<and> fov (set_fov v r) \<le> 180"
    using clamp_range[of 0 180 v] by (simp add: set_fov_def sanitize_def fov_input_def)
  have n: "0.01 \<le> near (set_near v r) \<and> near (set_near v r) \<le> 1"
    using clamp_range[of "0.01" 1 v] by (simp add: set_near_def sanitize_def near_input_def)
  have fa: "1 \<le> far (set_far w r') \<and> far (set_far w r') \<le> 10" for w r'
    using clamp_range[of 1 10 w] by (simp add: set_far_def sanitize_def far_input_def)
  have a: "0.1 \<le> aspect (set_aspect v r) \<and> aspect (set_aspect v r) \<le> 10"
    using clamp_range[of "0.1" 10 v] by (simp add: set_aspect_def sanitize_def aspect_input_def)
  have nf: "near (set_near v r) \<le> far (set_far w r')"
    using n fa[of w r'] by linarith
  have i: "fov (AuxCamera_init initPos initRot initFocal world) = 55
   \<and> aspect (AuxCamera_init initPos initRot initFocal world) = 1.6
   \<and> near (AuxCamera_init initPos initRot initFocal world) = 0.1
   \<and> far (AuxCamera_init initPos initRot initFocal world) = 3"
    by (simp add: AuxCamera_init_def AuxCamera_render_def Let_def fov_input_def aspect_input_def
        near_input_def far_input_def)
  have c: "vertex_count (fst (Frustum r)) = 5"
    by (simp add: Frustum_def vertex_count_frustum)
  show ?thesis using f n fa[of v r] a nf i c by simp
qed

text \<open>
  The claim as written fails: writing \<open>- 5\<close> to the fov leaves fov \<open>0\<close>, outside \<open>(0, 180]\<close>,
  and the frustum is still built; writing \<open>2\<close> to near and \<open>0\<close> to far leaves near = far = 1.
\<close>

theorem intrinsics_setters_counterexample:
  "fov (set_fov (- 5) scenario_rig0) = 0
   \<and> \<not> 0 < fov (set_fov (- 5) scenario_rig0)
   \<and> vertex_count (fst (Frustum (set_fov (- 5) scenario_rig0))) = 5
   \<and> near (set_far 0 (set_near 2 scenario_rig0)) = 1
   \<and> far (set_far 0 (set_near 2 scenario_rig0)) = 1
   \<and> \<not> near (set_far 0 (set_near 2 scenario_rig0)) < far (set_far 0 (set_near 2 scenario_rig0))"
  by (simp add: set_fov_def set_far_def set_near_def sanitize_def clamp_def fov_input_def
      near_input_def far_input_def Frustum_def vertex_count_frustum)

subsection \<open>Selection and gizmo mode\<close>

lemma select_store: "store (select rid a) = (store a)\<lparr> focal := Some rid \<rparr>"
  by (simp add: select_def render_def onClick_def onPointerMissed_def)

lemma select_snap: "snap (select rid a) = store (select rid a)"
  by (simp add: select_def render_def)

lemma mode_publish_init: "mode (publish_init rid p f s) = mode s"
  by (simp add: publish_init_def)

lemma mode_fold_publish:
  "mode (fold (\<lambda>rid s'. publish_init rid (p rid) (f rid) s') ids s) = mode s"
  by (induction ids arbitrary: s) (simp_all add: mode_publish_init)

lemma mode_CameraBundle_body: "mode (CameraBundle_body count h s) = mode s"
  unfolding CameraBundle_body_def Let_def by (rule mode_fold_publish)

lemma mode_CameraBundle: "mode (store (CameraBundle count h a)) = mode (store a)"
  by (simp add: CameraBundle_def Let_def mode_CameraBundle_body)

text \<open>The invariant: the mode is written once, as an increment modulo the number of modes.\<close>

lemma reachable_mode:
  "reachable a \<Longrightarrow> mode (store a) < length modes \<and> mode (snap a) < length modes"
proof (induction rule: reachable.induct)
  case r_init
  show ?case by (simp add: app_init_def state_init_def modes_def)
next
  case (r_click a rid)
  then show ?case by (simp add: onClick_def)
next
  case (r_missed a)
  then show ?case by (simp add: onPointerMissed_def)
next
  case (r_context a rid)
  then show ?case by (simp add: onContextMenu_def modes_def)
next
  case (r_render a)
  then show ?case by (simp add: render_def)
next
  case (r_bundle a count initHeight)
  then show ?case by (simp add: mode_CameraBundle) (simp add: CameraBundle_def Let_def)
next
  case (r_frame a rid r)
  then show ?case by (simp add: useFrame_AuxCamera_def)
qed

lemma reachable_select: "reachable a \<Longrightarrow> reachable (select rid a)"
  unfolding select_def by (intro r_render r_click r_missed)

lemma reachable_toggle: "reachable a \<Longrightarrow> reachable (toggle rid a)"
  unfolding toggle_def by (intro r_render r_context)

lemma reachable_setCount: "reachable a \<Longrightarrow> reachable (setCount count h a)"
  unfolding setCount_def by (intro r_render r_bundle)

text \<open>
  Claim C4, as the code has it. After a primary select of rig \<open>A\<close> followed by a primary
  select of rig \<open>B\<close> the selected rig is \<open>B\<close> and the gizmo mode is the one held before the two
  events: selecting a rig never writes the mode, so it is Translate exactly when it was
  Translate before.
\<close>

theorem select_keeps_mode:
  "focal (store (select B (select A a))) = Some B
   \<and> mode (store (select B (select A a))) = mode (store a)
   \<and> snap (select B (select A a)) = store (select B (select A a))
   \<and> gizmo_mode (select B (select A a))
       = (if mode (store a) < length modes then Some (modes ! mode (store a)) else None)"
  by (simp add: select_store select_snap gizmo_mode_def)

text \<open>
  The claim as written fails: from the state reached by selecting rig 0, toggling to Rotate
  and clicking empty space, selecting rig 0 and then rig 1 leaves rig 1 selected in Rotate.
\<close>

theorem select_resets_mode_counterexample:
  "focal (store (select 1 (select 0 (deselect (toggle 0 (select 0 app_init)))))) = Some 1
   \<and> gizmo_mode (select 1 (select 0 (deselect (toggle 0 (select 0 app_init))))) = Some ''rotate''
   \<and> gizmo_mode (select 1 (select 0 (deselect (toggle 0 (select 0 app_init))))) \<noteq> Some ''translate''"
  by (simp add: select_def deselect_def toggle_def render_def onClick_def onPointerMissed_def
      onContextMenu_def app_init_def state_init_def gizmo_mode_def modes_def)

text \<open>
  Claim C7. Whenever the rig count of \<^verbatim>\<open>CameraBundle\<close> differs from that of its previous
  render, the selection is cleared, whatever was selected and whether or not that rig is
  still among the rigs.
\<close>

theorem count_change_unselects:
  assumes "rendered_count a = Some old" "new \<noteq> old"
  shows "focal (store (CameraBundle new h a)) = None
       \<and> focal (store (setCount new h a)) = None
       \<and> focal (snap (setCount new h a)) = None"
  using assms by (simp add: setCount_def render_def CameraBundle_def Let_def)

theorem count_change_unselects_witness:
  "rendered_count (select 0 (setCount 4 (7 / 8) app_init)) = Some 4 \<and> (2::nat) \<noteq> 4
   \<and> focal (store (select 0 (setCount 4 (7 / 8) app_init))) = Some 0
   \<and> focal (store (setCount 2 (7 / 8) (select 0 (setCount 4 (7 / 8) app_init)))) = None"
proof -
  have rc: "rendered_count (select 0 (setCount 4 (7 / 8) app_init)) = Some 4"
    by (simp add: select_def render_def onClick_def onPointerMissed_def setCount_def
        CameraBundle_def Let_def)
  have ne: "(2::nat) \<noteq> 4" by simp
  have sel: "focal (store (select 0 (setCount 4 (7 / 8) app_init))) = Some 0"
    by (simp add: select_store)
  show ?thesis using count_change_unselects[OF rc ne, of "7 / 8"] rc sel by simp
qed

text \<open>
  Claim C8. With rig \<open>rid\<close> selected and the components rendered from the current store, the
  secondary (context-menu) event on that rig, applied twice, returns the gizmo mode to its
  original value; applied once it changes it.
\<close>

theorem toggle_twice_restores_mode:
  assumes "reachable a" "snap a = store a" "focal (store a) = Some rid"
  shows "mode (store (toggle rid (toggle rid a))) = mode (store a)
       \<and> gizmo_mode (toggle rid (toggle rid a)) = gizmo_mode a
       \<and> focal (store (toggle rid (toggle rid a))) = Some rid
       \<and> mode (store (toggle rid a)) \<noteq> mode (store a)"
proof -
  from reachable_mode[OF assms(1)] have "mode (store a) < 2"
    by (simp add: modes_def)
  then have "mode (store a) = 0 \<or> mode (store a) = 1" by auto
  then show ?thesis
    using assms(2,3)
    by (auto simp: toggle_def render_def onContextMenu_def gizmo_mode_def modes_def)
qed

theorem toggle_twice_restores_mode_witness:
  "reachable (select 0 app_init) \<and> snap (select 0 app_init) = store (select 0 app_init)
   \<and> focal (store (select 0 app_init)) = Some 0
   \<and> gizmo_mode (select 0 app_init) = Some ''translate''
   \<and> gizmo_mode (toggle 0 (select 0 app_init)) = Some ''rotate''
   \<and> gizmo_mode (toggle 0 (toggle 0 (select 0 app_init))) = gizmo_mode (select 0 app_init)"
proof -
  have r: "reachable (select 0 app_init)"
    by (intro reachable_select r_init)
  have s: "snap (select 0 app_init) = store (select 0 app_init)"
    by (rule select_snap)
  have f: "focal (store (select 0 app_init)) = Some 0"
    by (simp add: select_store)
  have g: "gizmo_mode (select 0 app_init) = Some ''translate''"
    by (simp add: gizmo_mode_def select_snap select_store app_init_def state_init_def modes_def)
  have g': "gizmo_mode (toggle 0 (select 0 app_init)) = Some ''rotate''"
    by (simp add: gizmo_mode_def toggle_def render_def onContextMenu_def select_snap
        select_store app_init_def state_init_def modes_def)
  show ?thesis using toggle_twice_restores_mode[OF r s f] r s f g g' by simp
qed

text \<open>
  Claim C9. In every reachable state the gizmo mode, in the store and in the snapshot the
  components render from, is a valid index of the two-element mode list, that is 0 or 1, so
  \<^verbatim>\<open>modes[mode]\<close> is always defined and is Translate or Rotate.
\<close>

theorem mode_is_valid_index:
  assumes "reachable a"
  shows "mode (store a) < length modes \<and> mode (snap a) < length modes
       \<and> mode (store a) \<in> {0, 1} \<and> mode (snap a) \<in> {0, 1}
       \<and> gizmo_mode a = Some (modes ! mode (snap a))
       \<and> gizmo_mode a \<in> {Some ''translate'', Some ''rotate''}"
proof -
  from reachable_mode[OF assms]
  have m: "mode (store a) < 2" "mode (snap a) < 2"
    by (simp_all add: modes_def)
  then have "mode (store a) = 0 \<or> mode (store a) = 1" "mode (snap a) = 0 \<or> mode (snap a) = 1"
    by auto
  then show ?thesis
    by (auto simp: gizmo_mode_def modes_def)
qed

theorem mode_is_valid_index_witness:
  "reachable (toggle 0 (select 0 app_init))
   \<and> mode (store (toggle 0 (select 0 app_init))) = 1
   \<and> mode (store (toggle 0 (select 0 app_init))) < length modes
   \<and> gizmo_mode (toggle 0 (select 0 app_init)) = Some ''rotate''"
proof -
  have r: "reachable (toggle 0 (select 0 app_init))"
    by (intro reachable_toggle reachable_select r_init)
  have m: "mode (store (toggle 0 (select 0 app_init))) = 1"
    by (simp add: toggle_def render_def onContextMenu_def select_snap
        select_store app_init_def state_init_def modes_def)
  have g: "gizmo_mode (toggle 0 (select 0 app_init)) = Some ''rotate''"
    using mode_is_valid_index[OF r] m by (simp add: toggle_def render_def modes_def)
  show ?thesis using mode_is_valid_index[OF r] r m g by simp
qed

subsection \<open>The two-rig scenario\<close>

lemma two_rig_vertex:
  assumes "publishes s [a, b]" "k < m"
  shows "vertex (computeCurve s 2 m) k =
           bezier (focalWorldPos a) (rightHandleWorldPos a) (leftHandleWorldPos b) (focalWorldPos b)
                  (real k / real m)"
proof -
  have "computeCurve s 2 m = concat (map coords (sample_segment a b m))"
    using computeCurve_published[OF assms(1), of m] by (simp add: numeral_2_eq_2)
  moreover have "length (sample_segment a b m) = m"
    by (simp add: sample_segment_def)
  ultimately show ?thesis
    using assms(2) by (simp add: vertex_concat_coords sample_segment_nth)
qed

lemma two_rig_count:
  assumes "publishes s [a, b]"
  shows "vertex_count (computeCurve s 2 m) = m"
proof -
  have "computeCurve s 2 m = concat (map coords (sample_segment a b m))"
    using computeCurve_published[OF assms, of m] by (simp add: numeral_2_eq_2)
  then have "vertex_count (computeCurve s 2 m) = length (sample_segment a b m)"
    by (simp only: vertex_count_coords)
  then show ?thesis
    by (simp add: sample_segment_def)
qed

text \<open>The sample count: a written 10 is below the control's minimum and is stored as 20.\<close>

lemma written_samples_10: "written_samples 10 = 20"
  by (simp add: written_samples_def sanitize_def samples_input_def clamp_def)

lemma written_samples_in_range: "20 \<le> v \<Longrightarrow> v \<le> 1000 \<Longrightarrow> written_samples v = v"
  by (simp add: written_samples_def sanitize_def samples_input_def clamp_def)

text \<open>The focal points of the two rigs, and the axes of the two aimed cameras.\<close>

lemma sqrt_25_4: "sqrt (25 / 4) = 5 / 2"
  by (rule real_sqrt_unique) (simp_all add: power2_eq_square)

lemma scenario_focal0: "initFocal_of scenario_pos0 scenario_target = Vector3 0 1 (3 / 2)"
  by (simp add: initFocal_of_def scenario_pos0_def scenario_target_def add_def sub_def
      normalize_def multiplyScalar_def length_v_def sqrt_25_4)

lemma scenario_focal1:
  "initFocal_of scenario_pos1 scenario_target
     = Vector3 (2 - 2 / sqrt (41 / 4)) 1 (5 / 2 - (5 / 2) / sqrt (41 / 4))"
  by (simp add: initFocal_of_def scenario_pos1_def scenario_target_def add_def sub_def
      normalize_def multiplyScalar_def length_v_def)

lemma lengthSq_xz: "lengthSq (Vector3 a 0 b) = a * a + b * b"
  by (simp add: lengthSq_def)

lemma length_v_xz: "length_v (Vector3 a 0 b) = sqrt (a * a + b * b)"
  by (simp add: length_v_def)

lemma lookAt0:
  "Matrix4_lookAt scenario_pos0 (Vector3 0 1 (3 / 2)) (Vector3 0 1 0)
     = (Vector3 1 0 0, Vector3 0 1 0, Vector3 0 0 1)"
  by (simp add: Matrix4_lookAt_def Let_def scenario_pos0_def sub_def lengthSq_def normalize_def
      length_v_def multiplyScalar_def crossVectors_def)

lemma unit_dir1:
  assumes "q = sqrt (41 / 4)"
  shows "(2 / q) * (2 / q) + (5 / (2 * q)) * (5 / (2 * q)) = 1"
proof -
  have q2: "q * q = 41 / 4" using assms by simp
  have a: "(2 / q) * (2 / q) = 4 / (q * q)" by simp
  have b: "(5 / (2 * q)) * (5 / (2 * q)) = 25 / (4 * (q * q))" by simp
  show ?thesis unfolding a b q2 by simp
qed

lemma lookAt1:
  "Matrix4_lookAt scenario_pos1
      (Vector3 (2 - 2 / sqrt (41 / 4)) 1 (5 / 2 - (5 / 2) / sqrt (41 / 4))) (Vector3 0 1 0)
     = (Vector3 (5 / (2 * sqrt (41 / 4))) 0 (- (2 / sqrt (41 / 4))), Vector3 0 1 0,
        Vector3 (2 / sqrt (41 / 4)) 0 (5 / (2 * sqrt (41 / 4))))"
proof -
  define q where "q = sqrt (41 / 4)"
  note u = unit_dir1[OF q_def]
  have u': "(5 / (2 * q)) * (5 / (2 * q)) + (- (2 / q)) * (- (2 / q)) = 1"
    unfolding u[symmetric] by simp
  have z0: "sub scenario_pos1 (Vector3 (2 - 2 / q) 1 (5 / 2 - (5 / 2) / q))
              = Vector3 (2 / q) 0 (5 / (2 * q))"
    by (simp add: scenario_pos1_def sub_def)
  have lsq: "lengthSq (Vector3 (2 / q) 0 (5 / (2 * q))) = 1"
    by (simp only: lengthSq_xz u)
  have len: "length_v (Vector3 (2 / q) 0 (5 / (2 * q))) = 1"
    by (simp only: length_v_xz u real_sqrt_one)
  have nz: "normalize (Vector3 (2 / q) 0 (5 / (2 * q))) = Vector3 (2 / q) 0 (5 / (2 * q))"
    unfolding normalize_def len by (simp add: multiplyScalar_def)
  have x0: "crossVectors (Vector3 0 1 0) (Vector3 (2 / q) 0 (5 / (2 * q)))
              = Vector3 (5 / (2 * q)) 0 (- (2 / q))"
    by (simp add: crossVectors_def)
  have lsqx: "lengthSq (Vector3 (5 / (2 * q)) 0 (- (2 / q))) = 1"
    by (simp only: lengthSq_xz u')
  have lenx: "length_v (Vector3 (5 / (2 * q)) 0 (- (2 / q))) = 1"
    by (simp only: length_v_xz u' real_sqrt_one)
  have nx: "normalize (Vector3 (5 / (2 * q)) 0 (- (2 / q))) = Vector3 (5 / (2 * q)) 0 (- (2 / q))"
    unfolding normalize_def lenx by (simp add: multiplyScalar_def)
  have "crossVectors (Vector3 (2 / q) 0 (5 / (2 * q))) (Vector3 (5 / (2 * q)) 0 (- (2 / q)))
             = Vector3 0 ((5 / (2 * q)) * (5 / (2 * q)) + (- (2 / q)) * (- (2 / q))) 0"
    by (simp add: crossVectors_def)
  then have y: "crossVectors (Vector3 (2 / q) 0 (5 / (2 * q))) (Vector3 (5 / (2 * q)) 0 (- (2 / q)))
             = Vector3 0 1 0"
    unfolding u' .
  have one: "(1::real) \<noteq> 0" by simp
  show ?thesis
    unfolding q_def[symmetric] Matrix4_lookAt_def Let_def z0 lsq if_not_P[OF one] nz x0 lsqx nx y
    by (rule refl)
qed

text \<open>What a rig holds after its camera and then its focal sphere were dragged.\<close>

lemma drag_positions:
  "camera_position (drag_focal f (drag_camera p r)) = p"
  "focal_position (drag_focal f (drag_camera p r)) = f"
  "matrixWorld (drag_focal f (drag_camera p r))
     = localToWorld p (Matrix4_lookAt p f (Vector3 0 1 0))"
  "leftHandle_position (drag_focal f (drag_camera p r))
     = Vector3 (vx (leftHandle_position r)) (vy (leftHandle_position r)) (- length_v (sub p f))"
  "rightHandle_position (drag_focal f (drag_camera p r))
     = Vector3 (vx (rightHandle_position r)) (vy (rightHandle_position r)) (- length_v (sub p f))"
  by (simp_all add: drag_focal_def drag_camera_def updateFocal_def Let_def lookAt_camera_def)

lemma CameraBundle_rig_handles:
  "vx (leftHandle_position (CameraBundle_rig count h rid)) = - (1 / 2)"
  "vy (leftHandle_position (CameraBundle_rig count h rid)) = 0"
  "vx (rightHandle_position (CameraBundle_rig count h rid)) = 1 / 2"
  "vy (rightHandle_position (CameraBundle_rig count h rid)) = 0"
  by (simp_all add: CameraBundle_rig_def AuxCamera_init_def AuxCamera_render_def Let_def
      leftHandle_input_def rightHandle_input_def)

lemma depth0: "length_v (sub scenario_pos0 (Vector3 0 1 (3 / 2))) = 1"
  by (simp add: scenario_pos0_def sub_def length_v_def)

lemma depth1:
  "length_v (sub scenario_pos1
      (Vector3 (2 - 2 / sqrt (41 / 4)) 1 (5 / 2 - (5 / 2) / sqrt (41 / 4)))) = 1"
proof -
  define q where "q = sqrt (41 / 4)"
  have z0: "sub scenario_pos1 (Vector3 (2 - 2 / q) 1 (5 / 2 - (5 / 2) / q))
              = Vector3 (2 / q) 0 (5 / (2 * q))"
    by (simp add: scenario_pos1_def sub_def)
  show ?thesis
    unfolding q_def[symmetric] z0 by (simp only: length_v_xz unit_dir1[OF q_def] real_sqrt_one)
qed

text \<open>
  Both cameras of the scenario stand where the scenario says and look at \<open>(0, 1, 0)\<close>: the
  focal sphere each is aimed at lies on the segment from the camera to that point.
\<close>

lemma scenario_cameras:
  "camera_position scenario_camera0 = Vector3 0 1 (5 / 2)"
  "camera_position scenario_camera1 = Vector3 2 1 (5 / 2)"
  "focal_position scenario_camera0
     = add (camera_position scenario_camera0)
           (multiplyScalar (sub scenario_target (camera_position scenario_camera0)) (2 / 5))"
  "focal_position scenario_camera1
     = add (camera_position scenario_camera1)
           (multiplyScalar (sub scenario_target (camera_position scenario_camera1))
                           (1 / sqrt (41 / 4)))"
  unfolding scenario_camera0_def scenario_camera1_def drag_positions scenario_focal0 scenario_focal1
  by (simp_all add: scenario_pos0_def scenario_pos1_def scenario_target_def add_def sub_def
      multiplyScalar_def)

lemma scenario_camera0_published:
  "focal_position scenario_camera0 = initFocal_of scenario_pos0 scenario_target"
  "matrixWorld scenario_camera0 (leftHandle_position scenario_camera0) = Vector3 (- (1 / 2)) 1 (3 / 2)"
  "matrixWorld scenario_camera0 (rightHandle_position scenario_camera0) = Vector3 (1 / 2) 1 (3 / 2)"
  unfolding scenario_camera0_def drag_positions CameraBundle_rig_handles scenario_focal0 depth0 lookAt0
  by (simp_all add: localToWorld_def add_def multiplyScalar_def scenario_pos0_def)

lemma scenario_camera1_published:
  "focal_position scenario_camera1 = initFocal_of scenario_pos1 scenario_target"
  "matrixWorld scenario_camera1 (leftHandle_position scenario_camera1)
     = Vector3 (2 - 2 / sqrt (41 / 4) - 5 / (4 * sqrt (41 / 4))) 1
               (5 / 2 - (5 / 2) / sqrt (41 / 4) + 1 / sqrt (41 / 4))"
  "matrixWorld scenario_camera1 (rightHandle_position scenario_camera1)
     = Vector3 (2 - 2 / sqrt (41 / 4) + 5 / (4 * sqrt (41 / 4))) 1
               (5 / 2 - (5 / 2) / sqrt (41 / 4) - 1 / sqrt (41 / 4))"
  unfolding scenario_camera1_def drag_positions CameraBundle_rig_handles scenario_focal1 depth1 lookAt1
  by (simp_all add: localToWorld_def add_def multiplyScalar_def scenario_pos1_def)

text \<open>The store of the scenario is one the application reaches, and what it publishes.\<close>

lemma reachable_frame: "reachable a \<Longrightarrow> reachable (frame rid r a)"
  unfolding frame_def perFrameUpdate_def
  by (simp add: split_beta r_frame)

lemma reachable_deselect: "reachable a \<Longrightarrow> reachable (deselect a)"
  unfolding deselect_def by (intro r_render r_missed)

lemma scenario_app_reachable: "reachable scenario_app"
  unfolding scenario_app_def
  by (intro reachable_frame reachable_deselect reachable_select reachable_setCount r_init)

lemma two_entries:
  "length xs = 2 \<Longrightarrow> take (Suc (Suc 0)) (array_set (array_set xs 0 a) (Suc 0) b) = [Some a, Some b]"
  by (auto simp: array_set_def numeral_2_eq_2 length_Suc_conv)

lemma two_frames_publish:
  assumes "length (focalPos (store a)) = 2" "length (leftHandlePos (store a)) = 2"
    and "length (rightHandlePos (store a)) = 2"
  shows "publishes (store (frame 1 r1 (frame 0 r0 a)))
           [\<lparr> focalWorldPos = focal_position r0,
              leftHandleWorldPos = matrixWorld r0 (leftHandle_position r0),
              rightHandleWorldPos = matrixWorld r0 (rightHandle_position r0) \<rparr>,
            \<lparr> focalWorldPos = focal_position r1,
              leftHandleWorldPos = matrixWorld r1 (leftHandle_position r1),
              rightHandleWorldPos = matrixWorld r1 (rightHandle_position r1) \<rparr>]"
  using assms
  by (simp add: publishes_def frame_def perFrameUpdate_def useFrame_AuxCamera_def two_entries)

lemma scenario_tables:
  "length (focalPos (store (deselect (select 1 (select 0 (setCount 2 1 app_init)))))) = 2"
  "length (leftHandlePos (store (deselect (select 1 (select 0 (setCount 2 1 app_init)))))) = 2"
  "length (rightHandlePos (store (deselect (select 1 (select 0 (setCount 2 1 app_init)))))) = 2"
  using fold_publish_fresh[of "\<lambda>i. CameraBundle_initPos 2 1 i"
      "\<lambda>i. initFocal_of (CameraBundle_initPos 2 1 i) (Vector3 0 1 0)" 2]
  by (simp_all add: deselect_def select_def render_def onClick_def onPointerMissed_def
      setCount_def CameraBundle_def CameraBundle_body_def Let_def app_init_def)

lemma publishes_scenario:
  "publishes scenario_store
     [\<lparr> focalWorldPos = initFocal_of scenario_pos0 scenario_target,
        leftHandleWorldPos = Vector3 (- (1 / 2)) 1 (3 / 2),
        rightHandleWorldPos = Vector3 (1 / 2) 1 (3 / 2) \<rparr>,
      \<lparr> focalWorldPos = initFocal_of scenario_pos1 scenario_target,
        leftHandleWorldPos =
          Vector3 (2 - 2 / sqrt (41 / 4) - 5 / (4 * sqrt (41 / 4))) 1
                  (5 / 2 - (5 / 2) / sqrt (41 / 4) + 1 / sqrt (41 / 4)),
        rightHandleWorldPos =
          Vector3 (2 - 2 / sqrt (41 / 4) + 5 / (4 * sqrt (41 / 4))) 1
                  (5 / 2 - (5 / 2) / sqrt (41 / 4) - 1 / sqrt (41 / 4)) \<rparr>]"
  using two_frames_publish[OF scenario_tables, of scenario_camera1 scenario_camera0]
  unfolding scenario_store_def scenario_app_def scenario_camera0_published
    scenario_camera1_published .

text \<open>
  Claim C6, as the code has it. In the two-rig scenario, whatever the handle positions, a
  sample count of 10 written to the path's control is stored as the control's minimum, 20,
  and the path then has exactly 20 points, all from the single segment; the first sample is
  rig 0's focal point \<open>(0, 1, 1.5)\<close>.
\<close>

theorem scenario_path:
  assumes "publishes s
     [\<lparr> focalWorldPos = initFocal_of scenario_pos0 scenario_target,
        leftHandleWorldPos = l0, rightHandleWorldPos = r0 \<rparr>,
      \<lparr> focalWorldPos = initFocal_of scenario_pos1 scenario_target,
        leftHandleWorldPos = l1, rightHandleWorldPos = r1 \<rparr>]"
  shows "written_samples 10 = 20
       \<and> Spline s 2 (written_samples 10) = Some (computeCurve s 2 (written_samples 10))
       \<and> vertex_count (computeCurve s 2 (written_samples 10)) = 20
       \<and> vertex (computeCurve s 2 (written_samples 10)) 0
           = initFocal_of scenario_pos0 scenario_target
       \<and> vertex (computeCurve s 2 (written_samples 10)) 0 = Vector3 0 1 (3 / 2)"
proof -
  have v0: "vertex (computeCurve s 2 20) 0 = initFocal_of scenario_pos0 scenario_target"
    using two_rig_vertex[OF assms, of 0 20] by (simp add: bezier_0)
  show ?thesis
    unfolding written_samples_10
    using v0 two_rig_count[OF assms, of 20] by (simp add: Spline_def scenario_focal0)
qed

theorem scenario_path_witness:
  "publishes scenario_store
     [\<lparr> focalWorldPos = initFocal_of scenario_pos0 scenario_target,
        leftHandleWorldPos = Vector3 (- (1 / 2)) 1 (3 / 2),
        rightHandleWorldPos = Vector3 (1 / 2) 1 (3 / 2) \<rparr>,
      \<lparr> focalWorldPos = initFocal_of scenario_pos1 scenario_target,
        leftHandleWorldPos =
          Vector3 (2 - 2 / sqrt (41 / 4) - 5 / (4 * sqrt (41 / 4))) 1
                  (5 / 2 - (5 / 2) / sqrt (41 / 4) + 1 / sqrt (41 / 4)),
        rightHandleWorldPos =
          Vector3 (2 - 2 / sqrt (41 / 4) + 5 / (4 * sqrt (41 / 4))) 1
                  (5 / 2 - (5 / 2) / sqrt (41 / 4) - 1 / sqrt (41 / 4)) \<rparr>]
   \<and> Spline scenario_store 2 (written_samples 10)
       = Some (computeCurve scenario_store 2 (written_samples 10))
   \<and> vertex_count (computeCurve scenario_store 2 (written_samples 10)) = 20
   \<and> vertex (computeCurve scenario_store 2 (written_samples 10)) 0 = Vector3 0 1 (3 / 2)"
  using scenario_path[OF publishes_scenario] publishes_scenario by blast

text \<open>
  The claim as written fails on the scenario: the path has 20 points, not 9, and its last
  point, the sample at \<open>t = 19 / 20\<close>, is more than a twenty-fifth of a unit from rig 1's
  focal point in \<open>x\<close>.
\<close>

theorem scenario_path_counterexample:
  "written_samples 10 = 20
   \<and> vertex_count (computeCurve scenario_store 2 (written_samples 10)) = 20
   \<and> vertex_count (computeCurve scenario_store 2 (written_samples 10)) \<noteq> 9
   \<and> 1 / 25 < vx (initFocal_of scenario_pos1 scenario_target)
                - vx (vertex (computeCurve scenario_store 2 (written_samples 10)) 19)"
proof -
  define q where "q = sqrt (41 / 4)"
  have q0: "0 < q" by (simp add: q_def)
  have "q < sqrt 16" unfolding q_def by (rule real_sqrt_less_mono) simp
  then have q4: "q < 4" by simp
  note p = publishes_scenario[unfolded scenario_focal0 scenario_focal1]
  have cnt: "vertex_count (computeCurve scenario_store 2 20) = 20"
    using two_rig_count[OF p, of 20] .
  have last: "vertex (computeCurve scenario_store 2 20) 19
       = bezier (Vector3 0 1 (3 / 2)) (Vector3 (1 / 2) 1 (3 / 2))
                (Vector3 (2 - 2 / q - 5 / (4 * q)) 1 (5 / 2 - (5 / 2) / q + 1 / q))
                (Vector3 (2 - 2 / q) 1 (5 / 2 - (5 / 2) / q)) (19 / 20)"
    using two_rig_vertex[OF p, of 19 20] by (simp add: q_def)
  have x: "vx (initFocal_of scenario_pos1 scenario_target)
            - vx (vertex (computeCurve scenario_store 2 20) 19) = 7 / 640 + 4951 / (32000 * q)"
    unfolding last scenario_focal1 q_def[symmetric]
    using q0 by (simp add: bezier_def add_def multiplyScalar_def power2_eq_square
        power3_eq_cube field_simps)
  have "4951 / (32000 * q) > 4951 / (32000 * 4)"
    using q0 q4 by (simp add: field_simps)
  then have "1 / 25 < 7 / 640 + 4951 / (32000 * q)" by simp
  then show ?thesis unfolding written_samples_10 using cnt x by simp
qed

end
